theory Spec2Isabelle
  imports Main "HOL-Library.Word" "HOL-Library.Multiset"
begin

section \<open>Strings\<close>

text \<open>
  Go strings are byte sequences; they are modelled as \<open>string\<close> (a list of 8-bit
  characters). DNS names reach the handler in presentation format, where every byte outside
  printable ASCII is written as an escape, so iterating a name by code point (as
  \<open>splitSubdomainParts\<close> does) and iterating it by byte agree.
\<close>

definition lowerChar :: "char \<Rightarrow> char" where
  "lowerChar c =
     (case map_of (zip ''ABCDEFGHIJKLMNOPQRSTUVWXYZ'' ''abcdefghijklmnopqrstuvwxyz'') c of
        Some d \<Rightarrow> d
      | None \<Rightarrow> c)"

text \<open>\<open>strings.ToLower\<close>, on ASCII.\<close>

definition ToLower :: "string \<Rightarrow> string" where
  "ToLower s = map lowerChar s"

text \<open>\<open>strings.Split(s, sep)\<close> for a separator of one character.\<close>

fun splitAcc :: "char \<Rightarrow> string \<Rightarrow> string \<Rightarrow> string list" where
  "splitAcc sep [] p = [p]"
| "splitAcc sep (c # s) p =
     (if c = sep then p # splitAcc sep s [] else splitAcc sep s (p @ [c]))"

definition strings_Split :: "string \<Rightarrow> char \<Rightarrow> string list" where
  "strings_Split s sep = splitAcc sep s []"

text \<open>\<open>strings.SplitN(s, sep, 2)\<close>: the text before the first separator and the rest.\<close>

definition strings_SplitN2 :: "string \<Rightarrow> char \<Rightarrow> string list" where
  "strings_SplitN2 s sep =
     (if sep \<in> set s
      then [takeWhile (\<lambda>c. c \<noteq> sep) s, tl (dropWhile (\<lambda>c. c \<noteq> sep) s)]
      else [s])"

fun strings_Join :: "string list \<Rightarrow> string \<Rightarrow> string" where
  "strings_Join [] sep = []"
| "strings_Join [x] sep = x"
| "strings_Join (x # y # xs) sep = x @ sep @ strings_Join (y # xs) sep"

definition strings_HasPrefix :: "string \<Rightarrow> string \<Rightarrow> bool" where
  "strings_HasPrefix s p = (take (length p) s = p)"

definition strings_HasSuffix :: "string \<Rightarrow> string \<Rightarrow> bool" where
  "strings_HasSuffix s p = (length p \<le> length s \<and> drop (length s - length p) s = p)"

text \<open>\<open>stringsutil.HasSuffixI\<close>: the suffix test after lower-casing both sides.\<close>

definition HasSuffixI :: "string \<Rightarrow> string \<Rightarrow> bool" where
  "HasSuffixI s p = strings_HasSuffix (ToLower s) (ToLower p)"

text \<open>
  \<open>dns.IsFqdn\<close> and \<open>dns.Fqdn\<close>: a name is fully qualified when it ends with a dot that
  is not escaped, that is, a dot preceded by an even number of backslashes.
\<close>

definition IsFqdn :: "string \<Rightarrow> bool" where
  "IsFqdn s =
     (if s = [] \<or> last s \<noteq> CHR ''.'' then False
      else even (length (takeWhile (\<lambda>c. c = CHR 0x5C) (rev (butlast s)))))"

definition Fqdn :: "string \<Rightarrow> string" where
  "Fqdn s = (if IsFqdn s then s else s @ ''.'')"

section \<open>The subdomain label splitter\<close>

text \<open>
  \<open>splitSubdomainParts\<close>: \<open>r\<close> is the list of tokens cut so far, \<open>p\<close> the token being
  read. A hyphen or an underscore cuts; the last token is appended after the loop.
\<close>

fun splitLoop :: "string \<Rightarrow> string list \<Rightarrow> string \<Rightarrow> string list" where
  "splitLoop [] r p = r @ [p]"
| "splitLoop (c # s) r p =
     (if c = CHR ''-'' \<or> c = CHR ''_'' then splitLoop s (r @ [p]) []
      else splitLoop s r (p @ [c]))"

definition splitSubdomainParts :: "string \<Rightarrow> string list" where
  "splitSubdomainParts s = splitLoop s [] []"

section \<open>DNS messages\<close>

type_synonym ip = "8 word list"

record RR_Header =
  Name :: string
  Rrtype :: "16 word"
  Class :: "16 word"
  Ttl :: "32 word"

datatype EDNS0 =
  EDNS0_LOCAL "16 word" "8 word list"
| EDNS0_OTHER "16 word"

datatype RR =
  RR_A RR_Header "ip option"
| RR_AAAA RR_Header "ip option"
| RR_NS RR_Header string
| RR_MX RR_Header "16 word" string
| RR_SOA RR_Header string string "32 word" "32 word" "32 word"
| RR_TXT RR_Header "string list"
| RR_OPT RR_Header "EDNS0 list"
| RR_OTHER RR_Header

record Question =
  QName :: string
  Qtype :: "16 word"
  Qclass :: "16 word"

record Msg =
  MsgId :: "16 word"
  Response :: bool
  Authoritative :: bool
  Questions :: "Question list"
  Answer :: "RR list"
  Ns :: "RR list"
  Extra :: "RR list"

definition TypeA :: "16 word" where "TypeA = 1"
definition TypeNS :: "16 word" where "TypeNS = 2"
definition TypeCNAME :: "16 word" where "TypeCNAME = 5"
definition TypeSOA :: "16 word" where "TypeSOA = 6"
definition TypePTR :: "16 word" where "TypePTR = 12"
definition TypeMX :: "16 word" where "TypeMX = 15"
definition TypeTXT :: "16 word" where "TypeTXT = 16"
definition TypeAAAA :: "16 word" where "TypeAAAA = 28"
definition TypeANY :: "16 word" where "TypeANY = 255"
definition ClassINET :: "16 word" where "ClassINET = 1"

lemmas dns_types =
  TypeA_def TypeNS_def TypeCNAME_def TypeSOA_def TypePTR_def TypeMX_def TypeTXT_def
  TypeAAAA_def TypeANY_def ClassINET_def

text \<open>
  Modelled from the spec: the constant \<open>acme.DNSChallengeString\<close>, declared in the ACME
  package of the repository, whose source is not part of this development. The ACME provider
  is "triggered when the lower-cased query name starts with the literal prefix
  \<open>_acme-challenge.\<close>".
\<close>

definition DNSChallengeString :: string where
  "DNSChallengeString = ''_acme-challenge.''"

text \<open>
  \<open>Msg.SetReply\<close> of the DNS library: the reply echoes the transaction id, is marked as
  a response and carries the first question of the request.
\<close>

definition SetReply :: "Msg \<Rightarrow> Msg" where
  "SetReply r =
     \<lparr>MsgId = MsgId r, Response = True, Authoritative = False, Questions = take 1 (Questions r),
      Answer = [], Ns = [], Extra = []\<rparr>"

section \<open>Configuration, server and environment\<close>

text \<open>
  The fields of \<open>Options\<close> the DNS server reads. \<open>GetIdLength\<close>, \<open>isCorrelationID\<close>
  and \<open>getCorrelationID\<close> are methods of \<open>Options\<close> defined in another file of the
  package: they are parameters here. \<open>OnResultSet\<close> says whether the \<open>OnResult\<close> callback is
  non-nil.
\<close>

record Options =
  Domains :: "string list"
  IPAddress :: string
  IPv6Address :: string
  DnsTTL :: int
  RootTLD :: bool
  ScanEverywhere :: bool
  OriginIPEDNSopt :: int
  RealIPFrom :: "string list"
  OnResultSet :: bool
  GetIdLength :: int
  isCorrelationID :: "string \<Rightarrow> bool"
  getCorrelationID :: "string \<Rightarrow> string"

record customDNSRecords =
  records :: "string \<rightharpoonup> string"
  v6Records :: "string \<rightharpoonup> string"
  subdomainRecords :: "string \<rightharpoonup> string"
  subdomainV6Records :: "string \<rightharpoonup> string"

definition defaultCustomRecords :: "string \<rightharpoonup> string" where
  "defaultCustomRecords =
     map_of [(''aws'', ''169.254.169.254''), (''alibaba'', ''100.100.100.200''),
             (''localhost'', ''127.0.0.1''), (''oracle'', ''192.0.0.192'')]"

definition defaultCustomV6Records :: "string \<rightharpoonup> string" where
  "defaultCustomV6Records = map_of [(''localhost'', ''::1'')]"

record DNSServer =
  options :: Options
  mxDomains :: "string \<rightharpoonup> string"
  nsDomains :: "string \<rightharpoonup> string list"
  ipAddress :: "ip option"
  ipv6Address :: "ip option"
  timeToLive :: "32 word"
  customRecords :: customDNSRecords
  TxtRecord :: string

record Interaction =
  Protocol :: string
  UniqueID :: string
  FullId :: string
  QType :: string
  RawRequest :: string
  RawResponse :: string
  RemoteAddress :: string
  Timestamp :: nat

record IPNet =
  NetIP :: ip
  NetMask :: "8 word list"

record ACMERecord =
  Value :: string
  TTL :: int

text \<open>
  What the handler takes from outside the repository: functions of the Go standard library
  and of the imported packages (\<open>net.ParseIP\<close>, \<open>net.ParseCIDR\<close>, \<open>IPNet.Contains\<close>,
  \<open>IP.String\<close>, \<open>net.SplitHostPort\<close> with its error dropped, \<open>Msg.String\<close>,
  \<open>stringsutil.SplitAny\<close>, \<open>stringsutil.SlideWithLength\<close> read to the end of its
  channel, the JSON encoder, the random source behind \<open>rand.Intn\<close> with one number for
  each question), the ACME record store (\<open>Inl\<close> its error), the mailbox constant \<open>acme.CertificateAuthority\<close>
  of the SOA records, the peer address of the response writer and the clock.
\<close>

record Env =
  ParseIP :: "string \<Rightarrow> ip option"
  ParseCIDR :: "string \<Rightarrow> IPNet option"
  Contains :: "IPNet \<Rightarrow> ip option \<Rightarrow> bool"
  IPString :: "8 word list \<Rightarrow> string"
  SplitHostPort :: "string \<Rightarrow> string"
  MsgString :: "Msg \<Rightarrow> string"
  SplitAny :: "string \<Rightarrow> string \<Rightarrow> string list"
  SlideWithLength :: "string \<Rightarrow> int \<Rightarrow> string list"
  Encode :: "Interaction \<Rightarrow> string option"
  RandSource :: "nat \<Rightarrow> nat"
  GetRecords :: "string \<Rightarrow> string + ACMERecord list"
  CertificateAuthority :: string
  RemoteAddr :: string
  Now :: nat

text \<open>
  What the handler changes: the statistics counter, the calls made to the storage sink and
  to the result callback, and the messages written to the transport.
\<close>

datatype StorageCall =
  AddInteraction string string
| AddInteractionWithId string string

record World =
  StatsDns :: "64 word"
  storage :: "StorageCall list"
  callbacks :: "Interaction list"
  written :: "Msg list"

text \<open>A run-time panic of the Go program.\<close>

datatype panic = IndexOutOfRange | NilPointerDereference

section \<open>The custom records engine\<close>

definition fromHexChar :: "char \<Rightarrow> nat option" where
  "fromHexChar c =
     map_of (zip ''0123456789abcdefABCDEF''
               [0, 1, 2, 3, 4, 5, 6, 7, 8, 9, 10, 11, 12, 13, 14, 15, 10, 11, 12, 13, 14, 15]) c"

text \<open>\<open>hex.DecodeString\<close>: \<open>None\<close> is its error.\<close>

fun hex_DecodeString :: "string \<Rightarrow> 8 word list option" where
  "hex_DecodeString [] = Some []"
| "hex_DecodeString [c] = None"
| "hex_DecodeString (a # b # s) =
     (case fromHexChar a of
        None \<Rightarrow> None
      | Some x \<Rightarrow>
          (case fromHexChar b of
             None \<Rightarrow> None
           | Some y \<Rightarrow>
               (case hex_DecodeString s of
                  None \<Rightarrow> None
                | Some bs \<Rightarrow> Some (word_of_nat (16 * x + y) # bs))))"

text \<open>\<open>HEX_IP_REGEX\<close>, the pattern \<open>^[a-f0-9]{8}$\<close>.\<close>

definition HEX_IP_REGEX_MatchString :: "string \<Rightarrow> bool" where
  "HEX_IP_REGEX_MatchString s =
     (length s = 8 \<and> list_all (\<lambda>c. c \<in> set ''abcdef0123456789'') s)"

definition digitChar :: "nat \<Rightarrow> char" where
  "digitChar d = ''0123456789'' ! (d mod 10)"

definition byteDecimal :: "8 word \<Rightarrow> string" where
  "byteDecimal b =
     (let n = unat b in
      if n < 10 then [digitChar n]
      else if n < 100 then [digitChar (n div 10), digitChar n]
      else [digitChar (n div 100), digitChar (n div 10), digitChar n])"

definition dottedQuad :: "8 word list \<Rightarrow> string" where
  "dottedQuad bs = strings_Join (map byteDecimal bs) ''.''"

text \<open>
  \<open>net.IP(b).String()\<close>: four bytes are printed as a dotted quad; the other lengths are
  left to the library.
\<close>

definition net_IP_String :: "Env \<Rightarrow> 8 word list \<Rightarrow> string" where
  "net_IP_String env bs = (if length bs = 4 then dottedQuad bs else IPString env bs)"

definition rand_Intn :: "Env \<Rightarrow> nat \<Rightarrow> nat \<Rightarrow> nat" where
  "rand_Intn env k n = RandSource env k mod n"

text \<open>The loop of \<open>checkCustomResponse\<close> over the sub-tokens; \<open>ips\<close> is the list built so far.\<close>

fun collectIPs :: "Env \<Rightarrow> customDNSRecords \<Rightarrow> string list \<Rightarrow> string list \<Rightarrow> string list" where
  "collectIPs env c [] ips = ips"
| "collectIPs env c (part # rest) ips =
     (if part = [] then collectIPs env c rest (ips @ [[]])
      else if HEX_IP_REGEX_MatchString part then
        (case hex_DecodeString part of
           None \<Rightarrow> collectIPs env c rest ips
         | Some ip \<Rightarrow> collectIPs env c rest (ips @ [net_IP_String env ip]))
      else
        (case subdomainRecords c (ToLower part) of
           Some ans \<Rightarrow> collectIPs env c rest (ips @ [ans])
         | None \<Rightarrow> collectIPs env c rest ips))"

text \<open>The empty string is the result "no custom record"; \<open>k\<close> numbers the random draw.\<close>

definition checkCustomResponse :: "Env \<Rightarrow> nat \<Rightarrow> customDNSRecords \<Rightarrow> string \<Rightarrow> string" where
  "checkCustomResponse env k c zone =
     (case strings_SplitN2 zone (CHR ''.'') of
        [label, rest] \<Rightarrow>
          (case records c (ToLower label) of
             Some v \<Rightarrow> v
           | None \<Rightarrow>
               (let subParts = splitSubdomainParts label in
                if length subParts = 1 then []
                else
                  (let ips = collectIPs env c subParts [] in
                   if length ips = 0 then []
                   else ips ! rand_Intn env k (length ips))))
      | _ \<Rightarrow> [])"

fun collectV6IPs :: "customDNSRecords \<Rightarrow> string list \<Rightarrow> string list \<Rightarrow> string list" where
  "collectV6IPs c [] ips = ips"
| "collectV6IPs c (part # rest) ips =
     (if part = [] then collectV6IPs c rest (ips @ [[]])
      else
        (case subdomainV6Records c (ToLower part) of
           Some ans \<Rightarrow> collectV6IPs c rest (ips @ [ans])
         | None \<Rightarrow> collectV6IPs c rest ips))"

definition checkCustomAAAAResponse :: "Env \<Rightarrow> nat \<Rightarrow> customDNSRecords \<Rightarrow> string \<Rightarrow> string" where
  "checkCustomAAAAResponse env k c zone =
     (case strings_SplitN2 zone (CHR ''.'') of
        [label, rest] \<Rightarrow>
          (case v6Records c (ToLower label) of
             Some v \<Rightarrow> v
           | None \<Rightarrow>
               (let subParts = splitSubdomainParts label in
                if length subParts = 1 then []
                else
                  (let ips = collectV6IPs c subParts [] in
                   if length ips = 0 then []
                   else ips ! rand_Intn env k (length ips))))
      | _ \<Rightarrow> [])"

section \<open>The authoritative responder\<close>

text \<open>
  \<open>NewDNSServer\<close>: the MX and NS tables are filled domain by domain. The custom records,
  which the constructor reads from the options and from a file, are an argument.
\<close>

fun fillDomains ::
  "string list \<Rightarrow> (string \<rightharpoonup> string) \<times> (string \<rightharpoonup> string list) \<Rightarrow>
   (string \<rightharpoonup> string) \<times> (string \<rightharpoonup> string list)" where
  "fillDomains [] tabs = tabs"
| "fillDomains (domain # rest) (mx, ns) =
     (let dotdomain = Fqdn domain in
      fillDomains rest
        (mx(dotdomain \<mapsto> ''mail.'' @ dotdomain),
         ns(dotdomain \<mapsto> [''ns1.'' @ dotdomain, ''ns2.'' @ dotdomain])))"

definition NewDNSServer :: "Env \<Rightarrow> Options \<Rightarrow> customDNSRecords \<Rightarrow> DNSServer" where
  "NewDNSServer env opts custom =
     (let tabs = fillDomains (Domains opts) (Map.empty, Map.empty) in
      \<lparr>options = opts, mxDomains = fst tabs, nsDomains = snd tabs,
       ipAddress = ParseIP env (IPAddress opts),
       ipv6Address = ParseIP env (IPv6Address opts),
       timeToLive = word_of_int (DnsTTL opts),
       customRecords = custom, TxtRecord = []\<rparr>)"

text \<open>The inner loop of \<open>resultFunction\<close>: one NS record and one glue record per name.\<close>

fun appendNs :: "DNSServer \<Rightarrow> RR_Header \<Rightarrow> string list \<Rightarrow> Msg \<Rightarrow> Msg" where
  "appendNs h nsHeader [] m = m"
| "appendNs h nsHeader (nsDomain # rest) m =
     appendNs h nsHeader rest
       (m\<lparr>Ns := Ns m @ [RR_NS nsHeader nsDomain],
          Extra := Extra m @
            [RR_A \<lparr>Name = nsDomain, Rrtype = TypeA, Class = ClassINET, Ttl = timeToLive h\<rparr>
               (ipAddress h)]\<rparr>)"

text \<open>The outer loop over \<open>dotDomains\<close>: the first name found in the NS table ends it.\<close>

fun lookupNs :: "DNSServer \<Rightarrow> RR_Header \<Rightarrow> string list \<Rightarrow> Msg \<Rightarrow> Msg" where
  "lookupNs h nsHeader [] m = m"
| "lookupNs h nsHeader (dotDomain # rest) m =
     (case nsDomains h dotDomain of
        Some ds \<Rightarrow> appendNs h nsHeader ds m
      | None \<Rightarrow> lookupNs h nsHeader rest m)"

text \<open>\<open>h.options.Domains[0]\<close> panics on an empty list of domains.\<close>

definition dotDomainsOf :: "DNSServer \<Rightarrow> string \<Rightarrow> panic + string list" where
  "dotDomainsOf h zone =
     (case Domains (options h) of
        [] \<Rightarrow> Inl IndexOutOfRange
      | d0 # _ \<Rightarrow> Inr [zone, Fqdn d0])"

definition resultFunction ::
  "DNSServer \<Rightarrow> RR_Header \<Rightarrow> string \<Rightarrow> ip option \<Rightarrow> Msg \<Rightarrow> panic + Msg" where
  "resultFunction h nsHeader zone ipAddr m =
     (let m1 = m\<lparr>Answer := Answer m @
                  [RR_A \<lparr>Name = zone, Rrtype = TypeA, Class = ClassINET, Ttl = timeToLive h\<rparr>
                     ipAddr]\<rparr>
      in case dotDomainsOf h zone of
           Inl p \<Rightarrow> Inl p
         | Inr dotDomains \<Rightarrow> Inr (lookupNs h nsHeader dotDomains m1))"

definition resultFunctionAAAA ::
  "DNSServer \<Rightarrow> RR_Header \<Rightarrow> string \<Rightarrow> ip option \<Rightarrow> Msg \<Rightarrow> panic + Msg" where
  "resultFunctionAAAA h nsHeader zone ipAddr m =
     (let m1 = m\<lparr>Answer := Answer m @
                  [RR_AAAA \<lparr>Name = zone, Rrtype = TypeAAAA, Class = ClassINET, Ttl = timeToLive h\<rparr>
                     ipAddr]\<rparr>
      in case dotDomainsOf h zone of
           Inl p \<Rightarrow> Inl p
         | Inr dotDomains \<Rightarrow> Inr (lookupNs h nsHeader dotDomains m1))"

definition handleACNAMEANY :: "DNSServer \<Rightarrow> Env \<Rightarrow> nat \<Rightarrow> string \<Rightarrow> Msg \<Rightarrow> panic + Msg" where
  "handleACNAMEANY h env k zone m =
     (let nsHeader = \<lparr>Name = zone, Rrtype = TypeNS, Class = ClassINET, Ttl = timeToLive h\<rparr>;
          record = checkCustomResponse env k (customRecords h) zone
      in if record \<noteq> [] then resultFunction h nsHeader zone (ParseIP env record) m
         else resultFunction h nsHeader zone (ipAddress h) m)"

definition handleAAAACNAMEANY :: "DNSServer \<Rightarrow> Env \<Rightarrow> nat \<Rightarrow> string \<Rightarrow> Msg \<Rightarrow> panic + Msg" where
  "handleAAAACNAMEANY h env k zone m =
     (let nsHeader = \<lparr>Name = zone, Rrtype = TypeNS, Class = ClassINET, Ttl = timeToLive h\<rparr>;
          record = checkCustomAAAAResponse env k (customRecords h) zone
      in if record \<noteq> [] then resultFunctionAAAA h nsHeader zone (ParseIP env record) m
         else resultFunctionAAAA h nsHeader zone (ipv6Address h) m)"

fun lookupMx :: "DNSServer \<Rightarrow> RR_Header \<Rightarrow> string list \<Rightarrow> Msg \<Rightarrow> Msg" where
  "lookupMx h nsHdr [] m = m"
| "lookupMx h nsHdr (dotDomain # rest) m =
     (case mxDomains h dotDomain of
        Some mxdomain \<Rightarrow> m\<lparr>Answer := Answer m @ [RR_MX nsHdr 1 mxdomain]\<rparr>
      | None \<Rightarrow> lookupMx h nsHdr rest m)"

definition handleMX :: "DNSServer \<Rightarrow> string \<Rightarrow> Msg \<Rightarrow> panic + Msg" where
  "handleMX h zone m =
     (let nsHdr = \<lparr>Name = zone, Rrtype = TypeMX, Class = ClassINET, Ttl = timeToLive h\<rparr>
      in case dotDomainsOf h zone of
           Inl p \<Rightarrow> Inl p
         | Inr dotDomains \<Rightarrow> Inr (lookupMx h nsHdr dotDomains m))"

fun lookupNsAnswer :: "DNSServer \<Rightarrow> RR_Header \<Rightarrow> string list \<Rightarrow> Msg \<Rightarrow> Msg" where
  "lookupNsAnswer h nsHeader [] m = m"
| "lookupNsAnswer h nsHeader (dotDomain # rest) m =
     (case nsDomains h dotDomain of
        Some ds \<Rightarrow> m\<lparr>Answer := Answer m @ map (RR_NS nsHeader) ds\<rparr>
      | None \<Rightarrow> lookupNsAnswer h nsHeader rest m)"

definition handleNS :: "DNSServer \<Rightarrow> string \<Rightarrow> Msg \<Rightarrow> panic + Msg" where
  "handleNS h zone m =
     (let nsHeader = \<lparr>Name = zone, Rrtype = TypeNS, Class = ClassINET, Ttl = timeToLive h\<rparr>
      in case dotDomainsOf h zone of
           Inl p \<Rightarrow> Inl p
         | Inr dotDomains \<Rightarrow> Inr (lookupNsAnswer h nsHeader dotDomains m))"

text \<open>
  \<open>handleSOA\<close> returns inside its inner loop: the first name of the first non-empty hit
  gives the one SOA record; a hit with no names moves on to the next candidate.
\<close>

fun lookupSoa :: "DNSServer \<Rightarrow> Env \<Rightarrow> RR_Header \<Rightarrow> string list \<Rightarrow> Msg \<Rightarrow> Msg" where
  "lookupSoa h env nsHdr [] m = m"
| "lookupSoa h env nsHdr (dotDomain # rest) m =
     (case nsDomains h dotDomain of
        Some (nsDomain # _) \<Rightarrow>
          m\<lparr>Answer := Answer m @ [RR_SOA nsHdr nsDomain (CertificateAuthority env) 1 60 60]\<rparr>
      | _ \<Rightarrow> lookupSoa h env nsHdr rest m)"

definition handleSOA :: "DNSServer \<Rightarrow> Env \<Rightarrow> string \<Rightarrow> Msg \<Rightarrow> panic + Msg" where
  "handleSOA h env zone m =
     (let nsHdr = \<lparr>Name = zone, Rrtype = TypeSOA, Class = ClassINET, Ttl = 0\<rparr>
      in case dotDomainsOf h zone of
           Inl p \<Rightarrow> Inl p
         | Inr dotDomains \<Rightarrow> Inr (lookupSoa h env nsHdr dotDomains m))"

definition handleTXT :: "DNSServer \<Rightarrow> string \<Rightarrow> Msg \<Rightarrow> Msg" where
  "handleTXT h zone m =
     m\<lparr>Answer := Answer m @
         [RR_TXT \<lparr>Name = zone, Rrtype = TypeTXT, Class = ClassINET, Ttl = 0\<rparr> [TxtRecord h]]\<rparr>"

text \<open>\<open>handleACMETXTChallenge\<close>: \<open>Inl\<close> is the error of the record store.\<close>

definition handleACMETXTChallenge :: "Env \<Rightarrow> string \<Rightarrow> Msg \<Rightarrow> string + Msg" where
  "handleACMETXTChallenge env zone m =
     (case GetRecords env (ToLower zone) of
        Inl err \<Rightarrow> Inl err
      | Inr recs \<Rightarrow>
          Inr (m\<lparr>Answer := Answer m @
                 map (\<lambda>record.
                        RR_TXT \<lparr>Name = zone, Rrtype = TypeTXT, Class = ClassINET,
                                Ttl = word_of_int (TTL record)\<rparr> [Value record]) recs\<rparr>))"

definition toQType :: "16 word \<Rightarrow> string" where
  "toQType ttype =
     (if ttype = TypeA then ''A''
      else if ttype = TypeNS then ''NS''
      else if ttype = TypeCNAME then ''CNAME''
      else if ttype = TypeSOA then ''SOA''
      else if ttype = TypePTR then ''PTR''
      else if ttype = TypeMX then ''MX''
      else if ttype = TypeTXT then ''TXT''
      else if ttype = TypeAAAA then ''AAAA''
      else [])"


section \<open>The correlation extractor\<close>

text \<open>The search for the configured domain: the first one whose fqdn ends the name.\<close>

fun findDomain :: "string list \<Rightarrow> string \<Rightarrow> string" where
  "findDomain [] domain = []"
| "findDomain (configuredDomain # rest) domain =
     (if HasSuffixI domain (Fqdn configuredDomain) then configuredDomain
      else findDomain rest domain)"

text \<open>
  Scan-everywhere mode. The state of both loops is the pair \<open>(uniqueID, fullID)\<close>, which a
  match overwrites.
\<close>

fun scanWindows :: "(string \<Rightarrow> bool) \<Rightarrow> string list \<Rightarrow> string \<times> string \<Rightarrow> string \<times> string" where
  "scanWindows isC [] st = st"
| "scanWindows isC (part # rest) st =
     (let normalizedPart = ToLower part
      in scanWindows isC rest (if isC normalizedPart then (normalizedPart, part) else st))"

fun scanChunks :: "Env \<Rightarrow> Options \<Rightarrow> string list \<Rightarrow> string \<times> string \<Rightarrow> string \<times> string" where
  "scanChunks env opts [] st = st"
| "scanChunks env opts (chunk # rest) st =
     scanChunks env opts rest
       (scanWindows (isCorrelationID opts) (SlideWithLength env chunk (GetIdLength opts)) st)"

text \<open>
  Strict label mode. \<open>parts\<close> is the whole list of labels and \<open>i\<close> the index of the label
  \<open>part\<close> whose sub-tokens are being read.
\<close>

fun scanSubs ::
  "(string \<Rightarrow> bool) \<Rightarrow> string list \<Rightarrow> nat \<Rightarrow> string \<Rightarrow> string list \<Rightarrow> string \<times> string \<Rightarrow>
   string \<times> string" where
  "scanSubs isC parts i part [] st = st"
| "scanSubs isC parts i part (sub # subs) st =
     scanSubs isC parts i part subs
       (if isC sub
        then (sub, if i + 1 \<le> length parts then strings_Join (take (i + 1) parts) ''.'' else part)
        else st)"

fun scanParts ::
  "(string \<Rightarrow> bool) \<Rightarrow> string list \<Rightarrow> nat \<Rightarrow> string list \<Rightarrow> string \<times> string \<Rightarrow>
   string \<times> string" where
  "scanParts isC parts i [] st = st"
| "scanParts isC parts i (part # rest) st =
     scanParts isC parts (i + 1) rest
       (scanSubs isC parts i part (splitSubdomainParts part) st)"

definition scanDelimiters :: string where
  "scanDelimiters = [CHR ''.'', CHR 0x0A, CHR 0x09, CHR 0x22, CHR 0x27]"

text \<open>
  The extraction block of \<open>handleInteraction\<close>: from the domain found, the query name and
  the text of the request to \<open>(uniqueID, fullID)\<close>, both empty when nothing matches.
\<close>

definition extractCorrelation ::
  "Env \<Rightarrow> Options \<Rightarrow> string \<Rightarrow> string \<Rightarrow> string \<Rightarrow> string \<times> string" where
  "extractCorrelation env opts foundDomain domain requestMsg =
     (if foundDomain \<noteq> [] then
        (if ScanEverywhere opts
         then scanChunks env opts (SplitAny env requestMsg scanDelimiters) ([], [])
         else (let parts = strings_Split domain (CHR ''.'')
               in scanParts (isCorrelationID opts) parts 0 parts ([], [])))
      else ([], []))"

section \<open>The origin IP resolver\<close>

definition v4InV6Prefix :: "8 word list" where
  "v4InV6Prefix = [0, 0, 0, 0, 0, 0, 0, 0, 0, 0, 0xff, 0xff]"

definition ipBytes :: "ip option \<Rightarrow> 8 word list" where
  "ipBytes x = (case x of None \<Rightarrow> [] | Some b \<Rightarrow> b)"

text \<open>\<open>IP.Equal\<close>; a nil address is the empty byte slice.\<close>

definition IP_Equal :: "ip option \<Rightarrow> ip option \<Rightarrow> bool" where
  "IP_Equal ip x =
     (let a = ipBytes ip; b = ipBytes x in
      if length a = length b then a = b
      else if length a = 4 \<and> length b = 16 then take 12 b = v4InV6Prefix \<and> a = drop 12 b
      else if length a = 16 \<and> length b = 4 then take 12 a = v4InV6Prefix \<and> drop 12 a = b
      else False)"

text \<open>
  The loop over \<open>RealIPFrom\<close>. When \<open>net.ParseCIDR\<close> fails the error is logged and
  \<open>cidr\<close> is nil; the call \<open>cidr.Contains\<close> that follows reads the fields of the nil
  network, which panics.
\<close>

fun trustLoop :: "Env \<Rightarrow> ip option \<Rightarrow> string list \<Rightarrow> panic + bool" where
  "trustLoop env checkIP [] = Inr False"
| "trustLoop env checkIP (test # rest) =
     (if CHR ''/'' \<in> set test then
        (case ParseCIDR env test of
           None \<Rightarrow> Inl NilPointerDereference
         | Some cidr \<Rightarrow>
             if Contains env cidr checkIP then Inr True else trustLoop env checkIP rest)
      else
        (let ip = ParseIP env test
         in if IP_Equal ip checkIP then Inr True else trustLoop env checkIP rest))"

text \<open>
  The scan of the options of one OPT record and of the Additional section. \<open>Some\<close> is the
  value returned from inside the loop, \<open>None\<close> says the loop ended.
\<close>

fun scanOptions :: "Env \<Rightarrow> 16 word \<Rightarrow> string \<Rightarrow> EDNS0 list \<Rightarrow> string option" where
  "scanOptions env code host [] = None"
| "scanOptions env code host (EDNS0_LOCAL c d # rest) =
     (if c = code then
        (let testHost = net_IP_String env d
         in if ParseIP env testHost = None then Some host else Some testHost)
      else scanOptions env code host rest)"
| "scanOptions env code host (EDNS0_OTHER c # rest) = scanOptions env code host rest"

fun scanExtra :: "Env \<Rightarrow> 16 word \<Rightarrow> string \<Rightarrow> RR list \<Rightarrow> string option" where
  "scanExtra env code host [] = None"
| "scanExtra env code host (RR_OPT hdr opts # rest) =
     (case scanOptions env code host opts of
        Some res \<Rightarrow> Some res
      | None \<Rightarrow> scanExtra env code host rest)"
| "scanExtra env code host (_ # rest) = scanExtra env code host rest"

definition getMsgHost :: "DNSServer \<Rightarrow> Env \<Rightarrow> Msg \<Rightarrow> panic + string" where
  "getMsgHost h env r =
     (let host = SplitHostPort env (RemoteAddr env) in
      if OriginIPEDNSopt (options h) < 0 then Inr host
      else
        (case trustLoop env (ParseIP env host) (RealIPFrom (options h)) of
           Inl p \<Rightarrow> Inl p
         | Inr isTrusted \<Rightarrow>
             if \<not> isTrusted then Inr host
             else
               (case scanExtra env (word_of_int (OriginIPEDNSopt (options h))) host (Extra r) of
                  Some res \<Rightarrow> Inr res
                | None \<Rightarrow> Inr host)))"

section \<open>The interaction dispatcher\<close>

text \<open>
  The RootTLD branch: the interaction is keyed by the query name, the callback is called
  when it is set, and the encoded interaction is stored under the domain found. An encoding
  error is logged and nothing is stored.
\<close>

definition rootTLDBranch ::
  "DNSServer \<Rightarrow> Env \<Rightarrow> string \<Rightarrow> string \<Rightarrow> Msg \<Rightarrow> Msg \<Rightarrow> World \<Rightarrow> panic + World" where
  "rootTLDBranch h env foundDomain domain r m w =
     (case getMsgHost h env r of
        Inl p \<Rightarrow> Inl p
      | Inr host \<Rightarrow>
          (case Questions r of
             [] \<Rightarrow> Inl IndexOutOfRange
           | q # _ \<Rightarrow>
               (let interaction =
                      \<lparr>Protocol = ''dns'', UniqueID = domain, FullId = domain,
                       QType = toQType (Qtype q), RawRequest = MsgString env r,
                       RawResponse = MsgString env m, RemoteAddress = host,
                       Timestamp = Now env\<rparr>;
                    w1 = (if OnResultSet (options h)
                          then w\<lparr>callbacks := callbacks w @ [interaction]\<rparr> else w)
                in case Encode env interaction of
                     None \<Rightarrow> Inr w1
                   | Some buffer \<Rightarrow>
                       Inr (w1\<lparr>storage := storage w1 @
                                 [AddInteractionWithId foundDomain buffer]\<rparr>))))"

text \<open>The correlation branch, entered when \<open>uniqueID\<close> is not empty.\<close>

definition correlationBranch ::
  "DNSServer \<Rightarrow> Env \<Rightarrow> string \<Rightarrow> string \<Rightarrow> Msg \<Rightarrow> Msg \<Rightarrow> World \<Rightarrow> panic + World" where
  "correlationBranch h env uniqueID fullID r m w =
     (let correlationID = getCorrelationID (options h) uniqueID in
      case getMsgHost h env r of
        Inl p \<Rightarrow> Inl p
      | Inr host \<Rightarrow>
          (case Questions r of
             [] \<Rightarrow> Inl IndexOutOfRange
           | q # _ \<Rightarrow>
               (let interaction =
                      \<lparr>Protocol = ''dns'', UniqueID = uniqueID, FullId = fullID,
                       QType = toQType (Qtype q), RawRequest = MsgString env r,
                       RawResponse = MsgString env m, RemoteAddress = host,
                       Timestamp = Now env\<rparr>
                in case Encode env interaction of
                     None \<Rightarrow> Inr w
                   | Some buffer \<Rightarrow>
                       Inr (w\<lparr>storage := storage w @
                                [AddInteraction correlationID buffer]\<rparr>))))"

definition handleInteraction ::
  "DNSServer \<Rightarrow> Env \<Rightarrow> string \<Rightarrow> Msg \<Rightarrow> Msg \<Rightarrow> World \<Rightarrow> panic + World" where
  "handleInteraction h env domain r m w =
     (let foundDomain = findDomain (Domains (options h)) domain in
      case (if RootTLD (options h) \<and> foundDomain \<noteq> []
            then rootTLDBranch h env foundDomain domain r m w else Inr w) of
        Inl p \<Rightarrow> Inl p
      | Inr w1 \<Rightarrow>
          (case extractCorrelation env (options h) foundDomain domain (MsgString env r) of
             (uniqueID, fullID) \<Rightarrow>
               if uniqueID \<noteq> [] then correlationBranch h env uniqueID fullID r m w1
               else Inr w1))"

section \<open>The handler\<close>

definition isChallenge :: "Question \<Rightarrow> bool" where
  "isChallenge question = strings_HasPrefix (ToLower (QName question)) DNSChallengeString"

definition continue :: "panic + Msg \<Rightarrow> panic + Msg option" where
  "continue res = (case res of Inl p \<Rightarrow> Inl p | Inr m \<Rightarrow> Inr (Some m))"

text \<open>
  The body of the loop of \<open>ServeDNS\<close> for one question, the \<open>k\<close>-th. \<open>Inr None\<close> is
  the \<open>return\<close> taken when the ACME record store fails.
\<close>

definition serveQuestion ::
  "DNSServer \<Rightarrow> Env \<Rightarrow> nat \<Rightarrow> Question \<Rightarrow> Msg \<Rightarrow> panic + Msg option" where
  "serveQuestion h env k question m =
     (let domain = QName question; t = Qtype question in
      if isChallenge question then
        (if t = TypeSOA then continue (handleSOA h env domain m)
         else if t = TypeTXT then
           (case handleACMETXTChallenge env domain m of
              Inl err \<Rightarrow> Inr None
            | Inr m' \<Rightarrow> Inr (Some m'))
         else if t = TypeNS then continue (handleNS h domain m)
         else if t = TypeA then continue (handleACNAMEANY h env k domain m)
         else if t = TypeAAAA then continue (handleAAAACNAMEANY h env k domain m)
         else Inr (Some m))
      else
        (if t = TypeA \<or> t = TypeCNAME \<or> t = TypeANY then
           continue (handleACNAMEANY h env k domain m)
         else if t = TypeAAAA then continue (handleAAAACNAMEANY h env k domain m)
         else if t = TypeMX then continue (handleMX h domain m)
         else if t = TypeNS then continue (handleNS h domain m)
         else if t = TypeSOA then continue (handleSOA h env domain m)
         else if t = TypeTXT then Inr (Some (handleTXT h domain m))
         else Inr (Some m)))"

text \<open>
  The loop over the questions: \<open>m\<close> is the reply built so far and \<open>ch\<close> the flag
  \<open>isDNSChallenge\<close>.
\<close>

fun questionLoop ::
  "DNSServer \<Rightarrow> Env \<Rightarrow> nat \<Rightarrow> Question list \<Rightarrow> Msg \<Rightarrow> bool \<Rightarrow> panic + (Msg \<times> bool) option" where
  "questionLoop h env k [] m ch = Inr (Some (m, ch))"
| "questionLoop h env k (question # rest) m ch =
     (case serveQuestion h env k question m of
        Inl p \<Rightarrow> Inl p
      | Inr None \<Rightarrow> Inr None
      | Inr (Some m') \<Rightarrow> questionLoop h env (k + 1) rest m' (ch \<or> isChallenge question))"

text \<open>
  \<open>ServeDNS\<close>. The counter is a 64-bit unsigned integer. A panic ends the handler; what
  it had changed is not part of the result.
\<close>

definition ServeDNS :: "DNSServer \<Rightarrow> Env \<Rightarrow> Msg \<Rightarrow> World \<Rightarrow> panic + World" where
  "ServeDNS h env r w =
     (let w0 = w\<lparr>StatsDns := StatsDns w + 1\<rparr>;
          m = (SetReply r)\<lparr>Authoritative := True\<rparr>
      in case Questions r of
           [] \<Rightarrow> Inr w0
         | q0 # _ \<Rightarrow>
             (case questionLoop h env 0 (Questions r) m False of
                Inl p \<Rightarrow> Inl p
              | Inr None \<Rightarrow> Inr w0
              | Inr (Some (m', isDNSChallenge)) \<Rightarrow>
                  (case (if \<not> isDNSChallenge then handleInteraction h env (QName q0) r m' w0
                         else Inr w0) of
                     Inl p \<Rightarrow> Inl p
                   | Inr w1 \<Rightarrow> Inr (w1\<lparr>written := written w1 @ [m']\<rparr>))))"


section \<open>A concrete configuration\<close>

text \<open>
  The library functions \<open>SplitAny\<close> and \<open>SlideWithLength\<close> as their package defines
  them: the fields between delimiters, empty fields dropped; and the windows of a given
  positive length, or the whole string when it is shorter.
\<close>

fun fieldsAcc :: "(char \<Rightarrow> bool) \<Rightarrow> string \<Rightarrow> string \<Rightarrow> string list" where
  "fieldsAcc f [] p = (if p = [] then [] else [p])"
| "fieldsAcc f (c # s) p =
     (if f c then (if p = [] then [] else [p]) @ fieldsAcc f s []
      else fieldsAcc f s (p @ [c]))"

definition stringsutil_SplitAny :: "string \<Rightarrow> string \<Rightarrow> string list" where
  "stringsutil_SplitAny s seps = fieldsAcc (\<lambda>c. c \<in> set seps) s []"

definition stringsutil_SlideWithLength :: "string \<Rightarrow> int \<Rightarrow> string list" where
  "stringsutil_SlideWithLength s l =
     (if int (length s) < l then [s]
      else map (\<lambda>i. take (nat l) (drop i s))
             (filter (\<lambda>i. int i + l \<le> int (length s)) [0..<length s]))"

text \<open>
  The setting of the examples: the apex \<open>oob.example\<close>, the default address
  \<open>192.0.2.10\<close>, a TTL of 60, identifiers of four lower-case letters or digits with a digit among
  them, the resolver \<open>10.0.0.53\<close> trusted. Addresses are parsed from a table.
\<close>

definition isAlnumLower :: "char \<Rightarrow> bool" where
  "isAlnumLower c = (c \<in> set ''abcdefghijklmnopqrstuvwxyz0123456789'')"

definition isDigit :: "char \<Rightarrow> bool" where
  "isDigit c = (c \<in> set ''0123456789'')"

definition exampleOptions :: Options where
  "exampleOptions =
     \<lparr>Domains = [''oob.example''], IPAddress = ''192.0.2.10'', IPv6Address = ''2001:db8::1'',
      DnsTTL = 60, RootTLD = False, ScanEverywhere = False, OriginIPEDNSopt = 65001,
      RealIPFrom = [''10.0.0.53''], OnResultSet = False, GetIdLength = 4,
      isCorrelationID =
        (\<lambda>s. length s = 4 \<and> list_all isAlnumLower s \<and> list_ex isDigit s),
      getCorrelationID = (\<lambda>s. take 4 s)\<rparr>"

definition exampleParseIP :: "string \<Rightarrow> ip option" where
  "exampleParseIP =
     map_of [(''192.0.2.10'', [192, 0, 2, 10]), (''10.0.0.53'', [10, 0, 0, 53]),
             (''198.51.100.7'', [198, 51, 100, 7]), (''203.0.113.9'', [203, 0, 113, 9]),
             (''169.254.169.254'', [169, 254, 169, 254]),
             (''222.173.190.239'', [222, 173, 190, 239]),
             (''202.254.186.190'', [202, 254, 186, 190])]"

definition exampleParseCIDR :: "string \<Rightarrow> IPNet option" where
  "exampleParseCIDR =
     map_of [(''10.0.0.0/8'', \<lparr>NetIP = [10, 0, 0, 0], NetMask = [255, 0, 0, 0]\<rparr>)]"

definition exampleContains :: "IPNet \<Rightarrow> ip option \<Rightarrow> bool" where
  "exampleContains n x =
     (case x of
        None \<Rightarrow> False
      | Some b \<Rightarrow>
          length b = length (NetIP n) \<and>
          list_all (\<lambda>(a, c, k). k = 0 \<or> a = c) (zip b (zip (NetIP n) (NetMask n))))"

definition exampleMsgString :: "Msg \<Rightarrow> string" where
  "exampleMsgString m =
     concat (map (\<lambda>q. CHR '';'' # QName q @ [CHR 0x09] @ toQType (Qtype q) @ [CHR 0x0A])
                 (Questions m))"

definition exampleEncode :: "Interaction \<Rightarrow> string option" where
  "exampleEncode i = Some (UniqueID i @ '','' @ FullId i @ '','' @ RemoteAddress i)"

definition exampleEnv :: Env where
  "exampleEnv =
     \<lparr>ParseIP = exampleParseIP, ParseCIDR = exampleParseCIDR, Contains = exampleContains,
      IPString = (\<lambda>bs. ''?''), SplitHostPort = takeWhile (\<lambda>c. c \<noteq> CHR '':''),
      MsgString = exampleMsgString, SplitAny = stringsutil_SplitAny,
      SlideWithLength = stringsutil_SlideWithLength, Encode = exampleEncode,
      RandSource = (\<lambda>k. k + 1), GetRecords = (\<lambda>zone. Inl ''store closed''),
      CertificateAuthority = ''letsencrypt.org'',
      RemoteAddr = ''10.0.0.53:40000'', Now = 0\<rparr>"

definition exampleRecords :: customDNSRecords where
  "exampleRecords =
     \<lparr>records = defaultCustomRecords, v6Records = defaultCustomV6Records,
      subdomainRecords = map_of [(''gw'', ''203.0.113.9'')], subdomainV6Records = Map.empty\<rparr>"

definition exampleServer :: DNSServer where
  "exampleServer = NewDNSServer exampleEnv exampleOptions exampleRecords"

definition exampleQuery :: "string \<Rightarrow> 16 word \<Rightarrow> Msg" where
  "exampleQuery name t =
     \<lparr>MsgId = 7, Response = False, Authoritative = False,
      Questions = [\<lparr>QName = name, Qtype = t, Qclass = ClassINET\<rparr>],
      Answer = [], Ns = [], Extra = []\<rparr>"

definition emptyWorld :: World where
  "emptyWorld = \<lparr>StatsDns = 0, storage = [], callbacks = [], written = []\<rparr>"


definition exampleTxtServer :: DNSServer where
  "exampleTxtServer = exampleServer\<lparr>TxtRecord := ''token''\<rparr>"

text \<open>A message with two questions, the second one a TXT question of the ACME subtree.\<close>

definition exampleAcmeFailure :: Msg where
  "exampleAcmeFailure =
     (exampleQuery ''c4ca.oob.example.'' TypeA)
       \<lparr>Questions :=
          [\<lparr>QName = ''c4ca.oob.example.'', Qtype = TypeA, Qclass = ClassINET\<rparr>,
           \<lparr>QName = ''_acme-challenge.oob.example.'', Qtype = TypeTXT, Qclass = ClassINET\<rparr>]\<rparr>"


definition exampleBadCidrServer :: DNSServer where
  "exampleBadCidrServer =
     exampleServer\<lparr>options := (options exampleServer)\<lparr>RealIPFrom := [''10.0.0.0/33'']\<rparr>\<rparr>"


text \<open>The same options in scan-everywhere mode.\<close>

definition exampleScanOptions :: Options where
  "exampleScanOptions = exampleOptions\<lparr>ScanEverywhere := True\<rparr>"

text \<open>The reply to an A question for a name without a custom record.\<close>

definition exampleReplyA :: "string \<Rightarrow> Msg" where
  "exampleReplyA name =
     \<lparr>MsgId = 7, Response = True, Authoritative = True,
      Questions = [\<lparr>QName = name, Qtype = TypeA, Qclass = ClassINET\<rparr>],
      Answer = [RR_A \<lparr>Name = name, Rrtype = TypeA, Class = ClassINET, Ttl = 60\<rparr>
                  (Some [192, 0, 2, 10])],
      Ns = [RR_NS \<lparr>Name = name, Rrtype = TypeNS, Class = ClassINET, Ttl = 60\<rparr>
              ''ns1.oob.example.'',
            RR_NS \<lparr>Name = name, Rrtype = TypeNS, Class = ClassINET, Ttl = 60\<rparr>
              ''ns2.oob.example.''],
      Extra = [RR_A \<lparr>Name = ''ns1.oob.example.'', Rrtype = TypeA, Class = ClassINET, Ttl = 60\<rparr>
                 (Some [192, 0, 2, 10]),
               RR_A \<lparr>Name = ''ns2.oob.example.'', Rrtype = TypeA, Class = ClassINET, Ttl = 60\<rparr>
                 (Some [192, 0, 2, 10])]\<rparr>"

section \<open>Notions used to state the properties\<close>

text \<open>
  The windows of scan-everywhere mode in the order the loops visit them, and the identifiers
  that match in scanning order: the lower-cased windows in scan-everywhere mode, the
  sub-tokens of the labels of the query name in strict label mode.
\<close>

definition scanOrderWindows :: "Env \<Rightarrow> Options \<Rightarrow> string \<Rightarrow> string list" where
  "scanOrderWindows env opts requestMsg =
     concat (map (\<lambda>chunk. SlideWithLength env chunk (GetIdLength opts))
                 (SplitAny env requestMsg scanDelimiters))"

definition matchesInOrder :: "Env \<Rightarrow> Options \<Rightarrow> string \<Rightarrow> string \<Rightarrow> string list" where
  "matchesInOrder env opts domain requestMsg =
     (if ScanEverywhere opts
      then filter (isCorrelationID opts) (map ToLower (scanOrderWindows env opts requestMsg))
      else filter (isCorrelationID opts)
             (concat (map splitSubdomainParts (strings_Split domain (CHR ''.'')))))"

fun isAddInteraction :: "StorageCall \<Rightarrow> bool" where
  "isAddInteraction (AddInteraction key blob) = True"
| "isAddInteraction (AddInteractionWithId key blob) = False"

text \<open>
  The contribution of one sub-token to the candidates of the v4 resolver: the empty token
  gives the empty string, which stands for the default address; a token of eight lower-case
  hexadecimal digits gives the dotted quad of its four bytes; a token whose lower-cased form
  is a key of the per-sub-token overlay gives the overlay value; any other token gives
  nothing.
\<close>

definition hexDigitValue :: "char \<Rightarrow> nat" where
  "hexDigitValue c = length (takeWhile (\<lambda>d. d \<noteq> c) ''0123456789abcdef'')"

definition decodeHex8 :: "string \<Rightarrow> 8 word list" where
  "decodeHex8 t =
     map (\<lambda>i. word_of_nat (16 * hexDigitValue (t ! (2 * i)) + hexDigitValue (t ! (2 * i + 1))))
       [0, 1, 2, 3]"

definition resolve :: "customDNSRecords \<Rightarrow> string \<Rightarrow> string list" where
  "resolve c t =
     (if t = [] then [[]]
      else if HEX_IP_REGEX_MatchString t then [dottedQuad (decodeHex8 t)]
      else (case subdomainRecords c (ToLower t) of Some v \<Rightarrow> [v] | None \<Rightarrow> []))"

text \<open>The glue record of a name server: an A record with the default v4 address.\<close>

definition glueA :: "DNSServer \<Rightarrow> string \<Rightarrow> RR" where
  "glueA h nsDomain =
     RR_A \<lparr>Name = nsDomain, Rrtype = TypeA, Class = ClassINET, Ttl = timeToLive h\<rparr> (ipAddress h)"





section \<open>Properties of the handler\<close>

lemma continue_simps [simp]:
  "continue (Inl p) = Inl p" "continue (Inr m) = Inr (Some m)"
  by (simp_all add: continue_def)

text \<open>The interaction dispatcher touches neither the counter nor the transport.\<close>

lemma rootTLDBranch_keeps:
  assumes "rootTLDBranch h env fd d r m w = Inr w'"
  shows "written w' = written w \<and> StatsDns w' = StatsDns w"
  using assms
  by (auto simp: rootTLDBranch_def Let_def split: sum.splits list.splits option.splits if_splits)

lemma correlationBranch_keeps:
  assumes "correlationBranch h env u f r m w = Inr w'"
  shows "written w' = written w \<and> StatsDns w' = StatsDns w"
  using assms
  by (auto simp: correlationBranch_def Let_def split: sum.splits list.splits option.splits if_splits)

lemma handleInteraction_keeps:
  assumes "handleInteraction h env d r m w = Inr w'"
  shows "written w' = written w \<and> StatsDns w' = StatsDns w"
proof -
  let ?fd = "findDomain (Domains (options h)) d"
  let ?root = "if RootTLD (options h) \<and> ?fd \<noteq> [] then rootTLDBranch h env ?fd d r m w else Inr w"
  from assms obtain w1 where w1: "?root = Inr w1"
    by (auto simp: handleInteraction_def Let_def split: sum.splits)
  then have k1: "written w1 = written w \<and> StatsDns w1 = StatsDns w"
    by (auto split: if_splits dest: rootTLDBranch_keeps)
  obtain u f where uf: "extractCorrelation env (options h) ?fd d (MsgString env r) = (u, f)"
    by (cases "extractCorrelation env (options h) ?fd d (MsgString env r)")
  from assms w1 uf have "(if u \<noteq> [] then correlationBranch h env u f r m w1 else Inr w1) = Inr w'"
    by (simp add: handleInteraction_def Let_def)
  then have "written w' = written w1 \<and> StatsDns w' = StatsDns w1"
    by (auto split: if_splits dest: correlationBranch_keeps)
  with k1 show ?thesis by simp
qed

subsection \<open>Messages without a question\<close>

text \<open>
  C9. For a message whose question section is empty, the handler increments the DNS
  statistics counter and returns: no response is written, nothing is stored and the callback
  is not called, so the world differs from the one before in the counter alone.
\<close>

theorem empty_question_counts_and_returns:
  assumes "Questions r = []"
  shows "ServeDNS h env r w = Inr (w\<lparr>StatsDns := StatsDns w + 1\<rparr>)"
  using assms by (simp add: ServeDNS_def)

theorem empty_question_counts_and_returns_witness:
  "Questions ((exampleQuery ''c4ca.oob.example.'' TypeA)\<lparr>Questions := []\<rparr>) = [] \<and>
   ServeDNS exampleServer exampleEnv
     ((exampleQuery ''c4ca.oob.example.'' TypeA)\<lparr>Questions := []\<rparr>) emptyWorld =
   Inr \<lparr>StatsDns = 1, storage = [], callbacks = [], written = []\<rparr>"
  using empty_question_counts_and_returns
    [of "(exampleQuery ''c4ca.oob.example.'' TypeA)\<lparr>Questions := []\<rparr>"
        exampleServer exampleEnv emptyWorld]
  by (simp add: emptyWorld_def)

subsection \<open>TXT queries\<close>

lemma serveQuestion_TXT:
  assumes "Qtype q = TypeTXT" and "\<not> isChallenge q"
  shows "serveQuestion h env k q m = Inr (Some (handleTXT h (QName q) m))"
  using assms by (simp add: serveQuestion_def dns_types)

text \<open>
  C10. A TXT question whose name is outside the ACME subtree adds exactly one record to the
  answer: a TXT record for the question name whose text is the \<open>TxtRecord\<close> field and whose
  TTL is 0, whatever the TTL of the server. When such a question is the only one of the
  message and the handler returns, the response written has this record as its whole answer.
\<close>

theorem txt_answer_single_ttl0:
  assumes "Qtype q = TypeTXT" and "\<not> isChallenge q"
  shows "serveQuestion h env k q m =
           Inr (Some (m\<lparr>Answer := Answer m @
                  [RR_TXT \<lparr>Name = QName q, Rrtype = TypeTXT, Class = ClassINET, Ttl = 0\<rparr>
                     [TxtRecord h]]\<rparr>)) \<and>
         (Questions r = [q] \<and> ServeDNS h env r w = Inr w' \<longrightarrow>
          written w' = written w @
           [\<lparr>MsgId = MsgId r, Response = True, Authoritative = True, Questions = [q],
             Answer = [RR_TXT \<lparr>Name = QName q, Rrtype = TypeTXT, Class = ClassINET, Ttl = 0\<rparr>
                         [TxtRecord h]],
             Ns = [], Extra = []\<rparr>])"
proof (intro conjI impI)
  show "serveQuestion h env k q m =
           Inr (Some (m\<lparr>Answer := Answer m @
                  [RR_TXT \<lparr>Name = QName q, Rrtype = TypeTXT, Class = ClassINET, Ttl = 0\<rparr>
                     [TxtRecord h]]\<rparr>))"
    using assms by (simp add: serveQuestion_TXT handleTXT_def)
next
  assume a: "Questions r = [q] \<and> ServeDNS h env r w = Inr w'"
  then have r: "Questions r = [q]" and s: "ServeDNS h env r w = Inr w'" by simp_all
  let ?m = "(SetReply r)\<lparr>Authoritative := True\<rparr>"
  have loop: "questionLoop h env 0 (Questions r) ?m False =
                Inr (Some (handleTXT h (QName q) ?m, False))"
    using assms r by (simp add: serveQuestion_TXT)
  from s r loop obtain w1 where
    hi: "handleInteraction h env (QName q) r (handleTXT h (QName q) ?m)
           (w\<lparr>StatsDns := StatsDns w + 1\<rparr>) = Inr w1"
    and w': "w' = w1\<lparr>written := written w1 @ [handleTXT h (QName q) ?m]\<rparr>"
    by (auto simp: ServeDNS_def Let_def split: sum.splits)
  from handleInteraction_keeps[OF hi] have "written w1 = written w" by simp
  with w' r show "written w' = written w @
           [\<lparr>MsgId = MsgId r, Response = True, Authoritative = True, Questions = [q],
             Answer = [RR_TXT \<lparr>Name = QName q, Rrtype = TypeTXT, Class = ClassINET, Ttl = 0\<rparr>
                         [TxtRecord h]],
             Ns = [], Extra = []\<rparr>]"
    by (simp add: handleTXT_def SetReply_def)
qed

theorem txt_answer_single_ttl0_witness:
  "Qtype \<lparr>QName = ''x.oob.example.'', Qtype = TypeTXT, Qclass = ClassINET\<rparr> = TypeTXT \<and>
   \<not> isChallenge \<lparr>QName = ''x.oob.example.'', Qtype = TypeTXT, Qclass = ClassINET\<rparr> \<and>
   timeToLive exampleTxtServer = 60 \<and>
   Questions (exampleQuery ''x.oob.example.'' TypeTXT) =
     [\<lparr>QName = ''x.oob.example.'', Qtype = TypeTXT, Qclass = ClassINET\<rparr>] \<and>
   ServeDNS exampleTxtServer exampleEnv (exampleQuery ''x.oob.example.'' TypeTXT) emptyWorld =
     Inr \<lparr>StatsDns = 1, storage = [], callbacks = [],
          written =
            [\<lparr>MsgId = 7, Response = True, Authoritative = True,
              Questions = [\<lparr>QName = ''x.oob.example.'', Qtype = TypeTXT, Qclass = ClassINET\<rparr>],
              Answer = [RR_TXT \<lparr>Name = ''x.oob.example.'', Rrtype = TypeTXT,
                                Class = ClassINET, Ttl = 0\<rparr> [''token'']],
              Ns = [], Extra = []\<rparr>]\<rparr>"
proof -
  let ?q = "\<lparr>QName = ''x.oob.example.'', Qtype = TypeTXT, Qclass = ClassINET\<rparr>"
  let ?r = "exampleQuery ''x.oob.example.'' TypeTXT"
  have a: "Qtype ?q = TypeTXT" by simp
  have b: "\<not> isChallenge ?q" by code_simp
  have c: "timeToLive exampleTxtServer = 60" by code_simp
  have d: "Questions ?r = [?q]" by (simp add: exampleQuery_def)
  have e: "ServeDNS exampleTxtServer exampleEnv ?r emptyWorld =
     Inr \<lparr>StatsDns = 1, storage = [], callbacks = [],
          written =
            [\<lparr>MsgId = 7, Response = True, Authoritative = True,
              Questions = [\<lparr>QName = ''x.oob.example.'', Qtype = TypeTXT, Qclass = ClassINET\<rparr>],
              Answer = [RR_TXT \<lparr>Name = ''x.oob.example.'', Rrtype = TypeTXT,
                                Class = ClassINET, Ttl = 0\<rparr> [''token'']],
              Ns = [], Extra = []\<rparr>]\<rparr>"
    by code_simp
  from txt_answer_single_ttl0 [OF a b, of exampleTxtServer exampleEnv 0 "SetReply ?r" ?r
      emptyWorld] a b c d e
  show ?thesis by simp
qed

subsection \<open>Errors of the ACME record store\<close>

lemma dotDomainsOf_ok:
  "Domains (options h) \<noteq> [] \<Longrightarrow> \<exists>ds. dotDomainsOf h zone = Inr ds"
  by (cases "Domains (options h)") (simp_all add: dotDomainsOf_def)

lemma handlers_no_panic:
  assumes "Domains (options h) \<noteq> []"
  shows "handleSOA h env zone m \<noteq> Inl p" and "handleNS h zone m \<noteq> Inl p"
    and "handleMX h zone m \<noteq> Inl p"
    and "resultFunction h hdr zone a m \<noteq> Inl p"
    and "resultFunctionAAAA h hdr zone a m \<noteq> Inl p"
proof -
  obtain ds where ds: "dotDomainsOf h zone = Inr ds"
    using dotDomainsOf_ok[OF assms] by blast
  show "handleSOA h env zone m \<noteq> Inl p" by (simp add: handleSOA_def ds)
  show "handleNS h zone m \<noteq> Inl p" by (simp add: handleNS_def ds)
  show "handleMX h zone m \<noteq> Inl p" by (simp add: handleMX_def ds)
  show "resultFunction h hdr zone a m \<noteq> Inl p" by (simp add: resultFunction_def ds)
  show "resultFunctionAAAA h hdr zone a m \<noteq> Inl p" by (simp add: resultFunctionAAAA_def ds)
qed

lemma handleA_no_panic:
  assumes "Domains (options h) \<noteq> []"
  shows "handleACNAMEANY h env k zone m \<noteq> Inl p"
    and "handleAAAACNAMEANY h env k zone m \<noteq> Inl p"
  using handlers_no_panic(4,5)[OF assms]
  by (simp_all add: handleACNAMEANY_def handleAAAACNAMEANY_def Let_def)

lemma continue_no_panic: "x \<noteq> Inl p \<Longrightarrow> continue x \<noteq> Inl p"
  by (cases x) (simp_all add: continue_def)

text \<open>With a domain configured, no question makes the loop panic.\<close>

lemma serveQuestion_no_panic:
  assumes "Domains (options h) \<noteq> []"
  shows "serveQuestion h env k q m \<noteq> Inl p"
proof -
  note np = continue_no_panic handlers_no_panic[OF assms] handleA_no_panic[OF assms]
  show ?thesis
  proof (cases "isChallenge q")
    case True
    then show ?thesis
      by (simp add: serveQuestion_def Let_def np split: sum.split)
  next
    case False
    then show ?thesis
      by (simp add: serveQuestion_def Let_def np)
  qed
qed

lemma serveQuestion_acme_error:
  assumes "isChallenge q" and "Qtype q = TypeTXT"
    and "GetRecords env (ToLower (QName q)) = Inl err"
  shows "serveQuestion h env k q m = Inr None"
  using assms by (simp add: serveQuestion_def handleACMETXTChallenge_def dns_types)

lemma questionLoop_acme_error:
  assumes "Domains (options h) \<noteq> []"
    and "q \<in> set qs" and "isChallenge q" and "Qtype q = TypeTXT"
    and "GetRecords env (ToLower (QName q)) = Inl err"
  shows "questionLoop h env k qs m ch = Inr None"
  using assms(2)
proof (induction qs arbitrary: k m ch)
  case Nil
  then show ?case by simp
next
  case (Cons q' qs)
  show ?case
  proof (cases "serveQuestion h env k q' m")
    case (Inl p)
    with serveQuestion_no_panic[OF assms(1)] show ?thesis by blast
  next
    case (Inr res)
    show ?thesis
    proof (cases res)
      case None
      with Inr show ?thesis by simp
    next
      case (Some m')
      have "q' \<noteq> q"
        using Inr Some serveQuestion_acme_error[OF assms(3,4,5), of h k m] by auto
      with Cons.prems have "q \<in> set qs" by simp
      from Cons.IH[OF this] Inr Some show ?thesis by simp
    qed
  qed
qed

text \<open>
  C8, as the specification states it, fails: with two questions, an A question and then a TXT
  question of the ACME subtree for which the record store returns an error, nothing is
  written to the transport, although the A question had produced records.
\<close>

theorem acme_store_error_counterexample:
  "GetRecords exampleEnv (ToLower ''_acme-challenge.oob.example.'') = Inl ''store closed'' \<and>
   ServeDNS exampleServer exampleEnv exampleAcmeFailure emptyWorld =
     Inr \<lparr>StatsDns = 1, storage = [], callbacks = [], written = []\<rparr>"
  by code_simp

text \<open>
  C8, amended. When the ACME record store returns an error for a TXT question of the ACME
  subtree, the handler returns at that question: with a domain configured, whatever the
  other questions of the message are, the counter is incremented and nothing else happens;
  no response is written, nothing is stored and the callback is not called.
\<close>

theorem acme_store_error_no_response:
  assumes "q \<in> set (Questions r)" and "isChallenge q" and "Qtype q = TypeTXT"
    and "GetRecords env (ToLower (QName q)) = Inl err"
    and "Domains (options h) \<noteq> []"
  shows "ServeDNS h env r w = Inr (w\<lparr>StatsDns := StatsDns w + 1\<rparr>)"
proof -
  from assms(1) obtain q0 qs where qs: "Questions r = q0 # qs"
    by (cases "Questions r") auto
  have "questionLoop h env 0 (Questions r) ((SetReply r)\<lparr>Authoritative := True\<rparr>) False =
          Inr None"
    by (rule questionLoop_acme_error[OF assms(5,1,2,3,4)])
  with qs show ?thesis by (simp add: ServeDNS_def)
qed

theorem acme_store_error_no_response_witness:
  "\<lparr>QName = ''_acme-challenge.oob.example.'', Qtype = TypeTXT, Qclass = ClassINET\<rparr>
     \<in> set (Questions exampleAcmeFailure) \<and>
   isChallenge \<lparr>QName = ''_acme-challenge.oob.example.'', Qtype = TypeTXT, Qclass = ClassINET\<rparr> \<and>
   GetRecords exampleEnv (ToLower ''_acme-challenge.oob.example.'') = Inl ''store closed'' \<and>
   Domains (options exampleServer) \<noteq> [] \<and>
   ServeDNS exampleServer exampleEnv exampleAcmeFailure emptyWorld =
     Inr (emptyWorld\<lparr>StatsDns := 1\<rparr>)"
proof -
  let ?q = "\<lparr>QName = ''_acme-challenge.oob.example.'', Qtype = TypeTXT, Qclass = ClassINET\<rparr>"
  have a: "?q \<in> set (Questions exampleAcmeFailure)"
    by (simp add: exampleAcmeFailure_def)
  have b: "isChallenge ?q" by code_simp
  have c: "Qtype ?q = TypeTXT" by simp
  have d: "GetRecords exampleEnv (ToLower (QName ?q)) = Inl ''store closed''"
    by (simp add: exampleEnv_def)
  have e: "Domains (options exampleServer) \<noteq> []"
    by (simp add: exampleServer_def NewDNSServer_def exampleOptions_def Let_def)
  from acme_store_error_no_response [OF a b c d e, of emptyWorld] a b d e
  show ?thesis by (simp add: emptyWorld_def)
qed

subsection \<open>The NS block of A, AAAA, ANY and CNAME questions\<close>

lemma appendNs_sections:
  "Ns (appendNs h hdr names m) = Ns m @ map (RR_NS hdr) names \<and>
   Extra (appendNs h hdr names m) = Extra m @ map (glueA h) names \<and>
   Answer (appendNs h hdr names m) = Answer m"
  by (induction names arbitrary: m) (simp_all add: glueA_def)

lemma lookupNs_first_hit:
  assumes "nsDomains h zone = Some names \<or>
           (nsDomains h zone = None \<and> nsDomains h apex = Some names)"
  shows "lookupNs h hdr [zone, apex] m = appendNs h hdr names m"
  using assms by auto

lemma resultFunction_block:
  assumes "Domains (options h) = d0 # ds"
    and "nsDomains h zone = Some names \<or>
         (nsDomains h zone = None \<and> nsDomains h (Fqdn d0) = Some names)"
  shows "\<exists>m'. resultFunction h hdr zone a m = Inr m' \<and>
           Ns m' = Ns m @ map (RR_NS hdr) names \<and> Extra m' = Extra m @ map (glueA h) names"
    and "\<exists>m'. resultFunctionAAAA h hdr zone a m = Inr m' \<and>
           Ns m' = Ns m @ map (RR_NS hdr) names \<and> Extra m' = Extra m @ map (glueA h) names"
  using assms(1) lookupNs_first_hit[OF assms(2)]
  by (simp_all add: resultFunction_def resultFunctionAAAA_def dotDomainsOf_def appendNs_sections)

lemma handleA_block:
  assumes "Domains (options h) = d0 # ds"
    and "nsDomains h zone = Some names \<or>
         (nsDomains h zone = None \<and> nsDomains h (Fqdn d0) = Some names)"
  shows "\<exists>m'. handleACNAMEANY h env k zone m = Inr m' \<and>
           Ns m' = Ns m @ map (RR_NS \<lparr>Name = zone, Rrtype = TypeNS, Class = ClassINET,
                                     Ttl = timeToLive h\<rparr>) names \<and>
           Extra m' = Extra m @ map (glueA h) names"
    and "\<exists>m'. handleAAAACNAMEANY h env k zone m = Inr m' \<and>
           Ns m' = Ns m @ map (RR_NS \<lparr>Name = zone, Rrtype = TypeNS, Class = ClassINET,
                                     Ttl = timeToLive h\<rparr>) names \<and>
           Extra m' = Extra m @ map (glueA h) names"
  using resultFunction_block[OF assms]
  by (simp_all add: handleACNAMEANY_def handleAAAACNAMEANY_def Let_def)

lemma continue_Some:
  assumes "\<exists>m'. x = Inr m' \<and> P m'"
  shows "\<exists>m'. continue x = Inr (Some m') \<and> P m'"
  using assms by auto

lemma fillDomains_keeps:
  assumes "ns key = Some [''ns1.'' @ key, ''ns2.'' @ key]"
  shows "snd (fillDomains doms (mx, ns)) key = Some [''ns1.'' @ key, ''ns2.'' @ key]"
  using assms by (induction doms arbitrary: mx ns) (simp_all add: Let_def)

lemma fillDomains_ns:
  assumes "d \<in> set doms"
  shows "snd (fillDomains doms (mx, ns)) (Fqdn d) = Some [''ns1.'' @ Fqdn d, ''ns2.'' @ Fqdn d]"
  using assms
proof (induction doms arbitrary: mx ns)
  case Nil
  then show ?case by simp
next
  case (Cons a doms)
  show ?case
  proof (cases "Fqdn a = Fqdn d")
    case True
    then show ?thesis by (simp add: Let_def fillDomains_keeps)
  next
    case False
    with Cons.prems have "d \<in> set doms" by auto
    from Cons.IH[OF this] show ?thesis by (simp add: Let_def)
  qed
qed

text \<open>
  C5, as the specification states it, fails for the ACME subtree, whose dispatch has cases
  for SOA, TXT, NS, A and AAAA only: a CNAME question for \<open>_acme-challenge.oob.example.\<close>
  gets a reply with no NS block, although the primary apex is in the NS table.
\<close>

theorem acme_cname_no_ns_block_counterexample:
  "nsDomains exampleServer (Fqdn ''oob.example'') =
     Some [''ns1.oob.example.'', ''ns2.oob.example.''] \<and>
   ServeDNS exampleServer exampleEnv
     (exampleQuery ''_acme-challenge.oob.example.'' TypeCNAME) emptyWorld =
     Inr \<lparr>StatsDns = 1, storage = [], callbacks = [],
          written =
            [\<lparr>MsgId = 7, Response = True, Authoritative = True,
              Questions = [\<lparr>QName = ''_acme-challenge.oob.example.'', Qtype = TypeCNAME,
                            Qclass = ClassINET\<rparr>],
              Answer = [], Ns = [], Extra = []\<rparr>]\<rparr>"
  by code_simp

text \<open>
  C5, amended. For every A or AAAA question, and for every ANY or CNAME question whose name
  is outside the \<open>_acme-challenge.\<close> subtree (the list of domains not being empty), the
  responder looks up the question name and then the fqdn of the primary apex in its NS
  table, and for the first hit appends one NS record per name of that apex to the Authority
  section and one glue A record per name, carrying the default v4 address, to the Additional
  section. The table built by the constructor holds the primary apex, so a question
  unrelated to any apex still receives the NS block of the primary apex.
\<close>

theorem ns_block_of_first_hit:
  assumes "Domains (options h) = d0 # ds"
    and "Qtype q = TypeA \<or> Qtype q = TypeAAAA \<or>
         ((Qtype q = TypeCNAME \<or> Qtype q = TypeANY) \<and> \<not> isChallenge q)"
    and "nsDomains h (QName q) = Some names \<or>
         (nsDomains h (QName q) = None \<and> nsDomains h (Fqdn d0) = Some names)"
  shows "(\<exists>m'. serveQuestion h env k q m = Inr (Some m') \<and>
            Ns m' = Ns m @ map (RR_NS \<lparr>Name = QName q, Rrtype = TypeNS, Class = ClassINET,
                                      Ttl = timeToLive h\<rparr>) names \<and>
            Extra m' = Extra m @
              map (\<lambda>n. RR_A \<lparr>Name = n, Rrtype = TypeA, Class = ClassINET, Ttl = timeToLive h\<rparr>
                         (ipAddress h)) names) \<and>
         (h = NewDNSServer env0 (options h) custom \<longrightarrow>
            nsDomains h (Fqdn d0) = Some [''ns1.'' @ Fqdn d0, ''ns2.'' @ Fqdn d0])"
proof (intro conjI impI)
  note blk = handleA_block[OF assms(1,3), of env k m, folded glueA_def]
  have g: "map (glueA h) names =
           map (\<lambda>n. RR_A \<lparr>Name = n, Rrtype = TypeA, Class = ClassINET, Ttl = timeToLive h\<rparr>
                         (ipAddress h)) names"
    by (simp add: glueA_def)
  show "\<exists>m'. serveQuestion h env k q m = Inr (Some m') \<and>
            Ns m' = Ns m @ map (RR_NS \<lparr>Name = QName q, Rrtype = TypeNS, Class = ClassINET,
                                      Ttl = timeToLive h\<rparr>) names \<and>
            Extra m' = Extra m @
              map (\<lambda>n. RR_A \<lparr>Name = n, Rrtype = TypeA, Class = ClassINET, Ttl = timeToLive h\<rparr>
                         (ipAddress h)) names"
  proof (cases "isChallenge q")
    case True
    with assms(2) have t: "Qtype q = TypeA \<or> Qtype q = TypeAAAA" by blast
    then show ?thesis
    proof
      assume "Qtype q = TypeA"
      with True have "serveQuestion h env k q m = continue (handleACNAMEANY h env k (QName q) m)"
        by (simp add: serveQuestion_def dns_types)
      with continue_Some[OF blk(1)] show ?thesis by (simp add: g)
    next
      assume "Qtype q = TypeAAAA"
      with True have "serveQuestion h env k q m = continue (handleAAAACNAMEANY h env k (QName q) m)"
        by (simp add: serveQuestion_def dns_types)
      with continue_Some[OF blk(2)] show ?thesis by (simp add: g)
    qed
  next
    case False
    show ?thesis
    proof (cases "Qtype q = TypeAAAA")
      case True
      with False have "serveQuestion h env k q m = continue (handleAAAACNAMEANY h env k (QName q) m)"
        by (simp add: serveQuestion_def dns_types)
      with continue_Some[OF blk(2)] show ?thesis by (simp add: g)
    next
      case nA: False
      with assms(2) have "Qtype q = TypeA \<or> Qtype q = TypeCNAME \<or> Qtype q = TypeANY" by blast
      with False have "serveQuestion h env k q m = continue (handleACNAMEANY h env k (QName q) m)"
        by (simp add: serveQuestion_def)
      with continue_Some[OF blk(1)] show ?thesis by (simp add: g)
    qed
  qed
next
  assume h: "h = NewDNSServer env0 (options h) custom"
  have "d0 \<in> set (Domains (options h))" using assms(1) by simp
  from fillDomains_ns[OF this, of Map.empty Map.empty]
  have "nsDomains (NewDNSServer env0 (options h) custom) (Fqdn d0) =
          Some [''ns1.'' @ Fqdn d0, ''ns2.'' @ Fqdn d0]"
    by (simp add: NewDNSServer_def Let_def)
  with h show "nsDomains h (Fqdn d0) = Some [''ns1.'' @ Fqdn d0, ''ns2.'' @ Fqdn d0]" by simp
qed

theorem ns_block_of_first_hit_witness:
  "Domains (options exampleServer) = [''oob.example''] \<and>
   Qtype \<lparr>QName = ''alien.example.'', Qtype = TypeA, Qclass = ClassINET\<rparr> = TypeA \<and>
   nsDomains exampleServer ''alien.example.'' = None \<and>
   nsDomains exampleServer (Fqdn ''oob.example'') =
     Some [''ns1.oob.example.'', ''ns2.oob.example.''] \<and>
   exampleServer = NewDNSServer exampleEnv (options exampleServer) exampleRecords \<and>
   serveQuestion exampleServer exampleEnv 0
     \<lparr>QName = ''alien.example.'', Qtype = TypeA, Qclass = ClassINET\<rparr>
     ((SetReply (exampleQuery ''alien.example.'' TypeA))\<lparr>Authoritative := True\<rparr>) =
     Inr (Some (exampleReplyA ''alien.example.''))"
proof -
  let ?q = "\<lparr>QName = ''alien.example.'', Qtype = TypeA, Qclass = ClassINET\<rparr>"
  have a: "Domains (options exampleServer) = ''oob.example'' # []" by code_simp
  have b: "Qtype ?q = TypeA" by simp
  have c: "nsDomains exampleServer ''alien.example.'' = None" by code_simp
  have d: "nsDomains exampleServer (Fqdn ''oob.example'') =
     Some [''ns1.oob.example.'', ''ns2.oob.example.'']" by code_simp
  have e: "exampleServer = NewDNSServer exampleEnv (options exampleServer) exampleRecords"
    by (simp add: exampleServer_def NewDNSServer_def Let_def)
  have f: "serveQuestion exampleServer exampleEnv 0 ?q
     ((SetReply (exampleQuery ''alien.example.'' TypeA))\<lparr>Authoritative := True\<rparr>) =
     Inr (Some (exampleReplyA ''alien.example.''))" by code_simp
  have b': "Qtype ?q = TypeA \<or> Qtype ?q = TypeAAAA \<or>
         ((Qtype ?q = TypeCNAME \<or> Qtype ?q = TypeANY) \<and> \<not> isChallenge ?q)"
    using b by blast
  have c': "nsDomains exampleServer (QName ?q) =
              Some [''ns1.oob.example.'', ''ns2.oob.example.''] \<or>
            (nsDomains exampleServer (QName ?q) = None \<and>
             nsDomains exampleServer (Fqdn ''oob.example'') =
               Some [''ns1.oob.example.'', ''ns2.oob.example.''])"
    using c d by simp
  from ns_block_of_first_hit [OF a b' c', of exampleEnv 0
      "(SetReply (exampleQuery ''alien.example.'' TypeA))\<lparr>Authoritative := True\<rparr>"
      exampleEnv exampleRecords] a b c d e f
  show ?thesis by simp
qed

subsection \<open>The origin IP resolver\<close>











subsection \<open>Malformed entries of the trusted-source list\<close>

text \<open>
  C7: a malformed CIDR entry is fatal. With \<open>10.0.0.0/33\<close> in \<open>RealIPFrom\<close>, which does
  not parse, origin IP resolution panics on the nil network instead of skipping the entry,
  and so does the handler for a query that carries a correlation id.
\<close>

theorem malformed_cidr_entry_panics:
  "CHR ''/'' \<in> set ''10.0.0.0/33'' \<and>
   ParseCIDR exampleEnv ''10.0.0.0/33'' = None \<and>
   RealIPFrom (options exampleBadCidrServer) = [''10.0.0.0/33''] \<and>
   getMsgHost exampleBadCidrServer exampleEnv (exampleQuery ''c4ca.oob.example.'' TypeA) =
     Inl NilPointerDereference \<and>
   ServeDNS exampleBadCidrServer exampleEnv (exampleQuery ''c4ca.oob.example.'' TypeA)
     emptyWorld = Inl NilPointerDereference"
  by code_simp

subsection \<open>The custom records engine\<close>

lemma fromHexChar_lower:
  assumes "c \<in> set ''abcdef0123456789''"
  shows "fromHexChar c = Some (hexDigitValue c)"
  using assms by (auto simp: fromHexChar_def hexDigitValue_def)

lemma hex_DecodeString_8:
  assumes "HEX_IP_REGEX_MatchString t"
  shows "hex_DecodeString t = Some (decodeHex8 t) \<and> length (decodeHex8 t) = 4"
proof -
  from assms have len: "length t = 8" and all: "\<forall>c \<in> set t. c \<in> set ''abcdef0123456789''"
    by (simp_all add: HEX_IP_REGEX_MatchString_def list_all_iff)
  from len obtain a b c d e f g h where t: "t = [a, b, c, d, e, f, g, h]"
    by (auto simp: eval_nat_numeral length_Suc_conv)
  from all t have "fromHexChar a = Some (hexDigitValue a)" "fromHexChar b = Some (hexDigitValue b)"
    "fromHexChar c = Some (hexDigitValue c)" "fromHexChar d = Some (hexDigitValue d)"
    "fromHexChar e = Some (hexDigitValue e)" "fromHexChar f = Some (hexDigitValue f)"
    "fromHexChar g = Some (hexDigitValue g)" "fromHexChar h = Some (hexDigitValue h)"
    by (simp_all add: fromHexChar_lower)
  then show ?thesis by (simp add: t decodeHex8_def)
qed

lemma collectIPs_resolve:
  "collectIPs env c parts ips = ips @ concat (map (resolve c) parts)"
proof (induction parts arbitrary: ips)
  case Nil
  then show ?case by simp
next
  case (Cons part rest)
  show ?case
  proof (cases "part \<noteq> [] \<and> HEX_IP_REGEX_MatchString part")
    case True
    with hex_DecodeString_8[of part] Cons show ?thesis
      by (simp add: resolve_def net_IP_String_def)
  next
    case False
    with Cons show ?thesis by (auto simp: resolve_def split: option.splits)
  qed
qed

lemma splitLoop_token:
  assumes "\<forall>c \<in> set t. c \<noteq> CHR ''-'' \<and> c \<noteq> CHR ''_''"
  shows "splitLoop (t @ s) r p = splitLoop s r (p @ t)"
  using assms by (induction t arbitrary: p) auto

lemma splitLoop_join:
  assumes "ts \<noteq> []" and "\<forall>t \<in> set ts. \<forall>c \<in> set t. c \<noteq> CHR ''-'' \<and> c \<noteq> CHR ''_''"
  shows "splitLoop (strings_Join ts ''-'') r p = r @ [p @ hd ts] @ tl ts"
  using assms
proof (induction ts "''-''" arbitrary: r p rule: strings_Join.induct)
  case 1
  then show ?case by simp
next
  case (2 x)
  then show ?case using splitLoop_token[of x "[]" r p] by simp
next
  case (3 x y xs)
  have "splitLoop (x @ ''-'' @ strings_Join (y # xs) ''-'') r p =
        splitLoop (''-'' @ strings_Join (y # xs) ''-'') r (p @ x)"
    using 3(3) by (intro splitLoop_token) simp
  also have "\<dots> = splitLoop (strings_Join (y # xs) ''-'') (r @ [p @ x]) []" by simp
  also have "\<dots> = (r @ [p @ x]) @ [[] @ hd (y # xs)] @ tl (y # xs)"
    using 3(3) by (intro 3(1)) simp_all
  finally show ?case by simp
qed

lemma splitSubdomainParts_join:
  assumes "ts \<noteq> []" and "\<forall>t \<in> set ts. \<forall>c \<in> set t. c \<noteq> CHR ''-'' \<and> c \<noteq> CHR ''_''"
  shows "splitSubdomainParts (strings_Join ts ''-'') = ts"
  using splitLoop_join[OF assms, of "[]" "[]"] assms(1)
  by (simp add: splitSubdomainParts_def)

lemma SplitN2_label:
  assumes "CHR ''.'' \<notin> set label"
  shows "strings_SplitN2 (label @ ''.'' @ rest) (CHR ''.'') = [label, rest]"
proof -
  have "\<forall>c \<in> set label. c \<noteq> CHR ''.''" using assms by auto
  then have "takeWhile (\<lambda>c. c \<noteq> CHR ''.'') (label @ ''.'' @ rest) = label"
    and "dropWhile (\<lambda>c. c \<noteq> CHR ''.'') (label @ ''.'' @ rest) = ''.'' @ rest"
    by (simp_all add: takeWhile_append2 dropWhile_append2)
  then show ?thesis by (simp add: strings_SplitN2_def)
qed

lemma checkCustomResponse_label:
  assumes "CHR ''.'' \<notin> set label" and "records c (ToLower label) = None"
  shows "checkCustomResponse env k c (label @ ''.'' @ rest) =
           (let cands = concat (map (resolve c) (splitSubdomainParts label)) in
            if length (splitSubdomainParts label) = 1 \<or> cands = [] then []
            else cands ! (RandSource env k mod length cands))"
proof -
  have sp: "strings_SplitN2 (label @ ''.'' @ rest) (CHR ''.'') = [label, rest]"
    by (rule SplitN2_label[OF assms(1)])
  show ?thesis
    unfolding checkCustomResponse_def sp
    using assms(2) by (simp add: collectIPs_resolve Let_def rand_Intn_def)
qed


text \<open>
  C4. Let the query name be \<open>label.rest\<close> with the lower-cased label not a key of the v4
  record map, and let the sub-tokens be those of the Subdomain Label Splitter (for a label
  \<open>t1-t2-...-tn\<close> whose tokens hold neither hyphen nor underscore, the tokens themselves).
  With two sub-tokens or more, the address returned is drawn from the multiset of the
  contributions \<open>resolve\<close> of the sub-tokens, and each member of it is returned for some
  state of the random source; when the multiset is empty, or the label yields a single
  sub-token, or the name has no dot, the resolver returns the empty string, "no override".
\<close>

theorem v4_resolver_draws_from_token_multiset:
  assumes "CHR ''.'' \<notin> set label" and "records c (ToLower label) = None"
  shows "(2 \<le> length (splitSubdomainParts label) \<and>
          concat (map (resolve c) (splitSubdomainParts label)) \<noteq> [] \<longrightarrow>
          checkCustomResponse env k c (label @ ''.'' @ rest)
            \<in># mset (concat (map (resolve c) (splitSubdomainParts label)))) \<and>
         (j < length (concat (map (resolve c) (splitSubdomainParts label))) \<and>
          2 \<le> length (splitSubdomainParts label) \<longrightarrow>
          checkCustomResponse (env\<lparr>RandSource := (\<lambda>n. j)\<rparr>) k c (label @ ''.'' @ rest) =
            concat (map (resolve c) (splitSubdomainParts label)) ! j) \<and>
         (concat (map (resolve c) (splitSubdomainParts label)) = [] \<longrightarrow>
          checkCustomResponse env k c (label @ ''.'' @ rest) = []) \<and>
         (length (splitSubdomainParts label) = 1 \<longrightarrow>
          checkCustomResponse env k c (label @ ''.'' @ rest) = []) \<and>
         (CHR ''.'' \<notin> set name \<longrightarrow> checkCustomResponse env k c name = []) \<and>
         (ts \<noteq> [] \<and> (\<forall>t \<in> set ts. \<forall>ch \<in> set t. ch \<noteq> CHR ''-'' \<and> ch \<noteq> CHR ''_'') \<longrightarrow>
          splitSubdomainParts (strings_Join ts ''-'') = ts)"
proof -
  let ?cands = "concat (map (resolve c) (splitSubdomainParts label))"
  note eq = checkCustomResponse_label[OF assms]
  have draw: "2 \<le> length (splitSubdomainParts label) \<and> ?cands \<noteq> [] \<longrightarrow>
          checkCustomResponse env k c (label @ ''.'' @ rest) \<in># mset ?cands"
  proof
    assume a: "2 \<le> length (splitSubdomainParts label) \<and> ?cands \<noteq> []"
    then have "RandSource env k mod length ?cands < length ?cands" by simp
    then have "?cands ! (RandSource env k mod length ?cands) \<in> set ?cands"
      by (rule nth_mem)
    with a show "checkCustomResponse env k c (label @ ''.'' @ rest) \<in># mset ?cands"
      unfolding eq Let_def by simp
  qed
  have each: "j < length ?cands \<and> 2 \<le> length (splitSubdomainParts label) \<longrightarrow>
          checkCustomResponse (env\<lparr>RandSource := (\<lambda>n. j)\<rparr>) k c (label @ ''.'' @ rest) =
            ?cands ! j"
  proof
    assume a: "j < length ?cands \<and> 2 \<le> length (splitSubdomainParts label)"
    have ne: "?cands \<noteq> []"
    proof
      assume "?cands = []"
      then have "length ?cands = 0" by (simp only: list.size)
      with a show False by linarith
    qed
    from a have one: "length (splitSubdomainParts label) \<noteq> 1" by linarith
    have "j mod length ?cands = j" using a by simp
    with ne one
    show "checkCustomResponse (env\<lparr>RandSource := (\<lambda>n. j)\<rparr>) k c (label @ ''.'' @ rest) =
            ?cands ! j"
      unfolding checkCustomResponse_label[OF assms] Let_def by auto
  qed
  have none: "?cands = [] \<longrightarrow> checkCustomResponse env k c (label @ ''.'' @ rest) = []"
    unfolding eq Let_def by simp
  have single: "length (splitSubdomainParts label) = 1 \<longrightarrow>
          checkCustomResponse env k c (label @ ''.'' @ rest) = []"
    unfolding eq Let_def by simp
  have nodot: "CHR ''.'' \<notin> set name \<longrightarrow> checkCustomResponse env k c name = []"
    by (simp add: checkCustomResponse_def strings_SplitN2_def)
  have join: "ts \<noteq> [] \<and> (\<forall>t \<in> set ts. \<forall>ch \<in> set t. ch \<noteq> CHR ''-'' \<and> ch \<noteq> CHR ''_'') \<longrightarrow>
          splitSubdomainParts (strings_Join ts ''-'') = ts"
    by (simp add: splitSubdomainParts_join)
  from draw each none single nodot join show ?thesis by blast
qed


theorem v4_resolver_draws_from_token_multiset_witness:
  "CHR ''.'' \<notin> set ''deadbeef-GW--zz'' \<and>
   records exampleRecords (ToLower ''deadbeef-GW--zz'') = None \<and>
   splitSubdomainParts ''deadbeef-GW--zz'' = [''deadbeef'', ''GW'', [], ''zz''] \<and>
   concat (map (resolve exampleRecords) [''deadbeef'', ''GW'', [], ''zz'']) =
     [''222.173.190.239'', ''203.0.113.9'', []] \<and>
   checkCustomResponse exampleEnv 0 exampleRecords ''deadbeef-GW--zz.oob.example.''
     \<in># mset [''222.173.190.239'', ''203.0.113.9'', []] \<and>
   checkCustomResponse (exampleEnv\<lparr>RandSource := (\<lambda>n. 0)\<rparr>) 0 exampleRecords
     ''deadbeef-GW--zz.oob.example.'' = ''222.173.190.239'' \<and>
   CHR ''.'' \<notin> set ''zz-yy'' \<and> records exampleRecords (ToLower ''zz-yy'') = None \<and>
   concat (map (resolve exampleRecords) (splitSubdomainParts ''zz-yy'')) = [] \<and>
   checkCustomResponse exampleEnv 0 exampleRecords ''zz-yy.oob.example.'' = [] \<and>
   CHR ''.'' \<notin> set ''zz'' \<and> records exampleRecords (ToLower ''zz'') = None \<and>
   length (splitSubdomainParts ''zz'') = 1 \<and>
   checkCustomResponse exampleEnv 0 exampleRecords ''zz.oob.example.'' = [] \<and>
   CHR ''.'' \<notin> set ''deadbeef-aa'' \<and>
   checkCustomResponse exampleEnv 0 exampleRecords ''deadbeef-aa'' = [] \<and>
   splitSubdomainParts (strings_Join [''deadbeef'', ''GW'', [], ''zz''] ''-'') =
     [''deadbeef'', ''GW'', [], ''zz'']"
proof -
  let ?ts = "[''deadbeef'', ''GW'', [], ''zz'']"
  have a1: "CHR ''.'' \<notin> set ''deadbeef-GW--zz''" by simp
  have a2: "records exampleRecords (ToLower ''deadbeef-GW--zz'') = None" by code_simp
  have a3: "splitSubdomainParts ''deadbeef-GW--zz'' = ?ts" by code_simp
  have a4: "concat (map (resolve exampleRecords) ?ts) =
     [''222.173.190.239'', ''203.0.113.9'', []]" by code_simp
  have a5: "CHR ''.'' \<notin> set ''deadbeef-aa''" by simp
  have a6: "?ts \<noteq> [] \<and> (\<forall>t \<in> set ?ts. \<forall>ch \<in> set t. ch \<noteq> CHR ''-'' \<and> ch \<noteq> CHR ''_'')"
    by simp
  note t1 = v4_resolver_draws_from_token_multiset [OF a1 a2, where j = 0 and env = exampleEnv
      and k = 0 and rest = "''oob.example.''" and name = "''deadbeef-aa''" and ts = ?ts]
  from t1 [unfolded a3 a4]
  have r1: "checkCustomResponse exampleEnv 0 exampleRecords ''deadbeef-GW--zz.oob.example.''
     \<in># mset [''222.173.190.239'', ''203.0.113.9'', []]"
    by simp
  from t1 [unfolded a3 a4]
  have r2: "checkCustomResponse (exampleEnv\<lparr>RandSource := (\<lambda>n. 0)\<rparr>) 0 exampleRecords
     ''deadbeef-GW--zz.oob.example.'' = ''222.173.190.239''"
    by simp
  from t1 a5 have r3: "checkCustomResponse exampleEnv 0 exampleRecords ''deadbeef-aa'' = []"
    by blast
  from t1 a6 have r4: "splitSubdomainParts (strings_Join ?ts ''-'') = ?ts"
    by blast
  have b1: "CHR ''.'' \<notin> set ''zz-yy''" by simp
  have b2: "records exampleRecords (ToLower ''zz-yy'') = None" by code_simp
  have b3: "concat (map (resolve exampleRecords) (splitSubdomainParts ''zz-yy'')) = []"
    by code_simp
  from v4_resolver_draws_from_token_multiset [OF b1 b2, where env = exampleEnv
      and k = 0 and rest = "''oob.example.''", unfolded b3]
  have r5: "checkCustomResponse exampleEnv 0 exampleRecords ''zz-yy.oob.example.'' = []"
    by simp
  have c1: "CHR ''.'' \<notin> set ''zz''" by simp
  have c2: "records exampleRecords (ToLower ''zz'') = None" by code_simp
  have c3: "length (splitSubdomainParts ''zz'') = 1" by code_simp
  from v4_resolver_draws_from_token_multiset [OF c1 c2, where env = exampleEnv
      and k = 0 and rest = "''oob.example.''", unfolded c3]
  have r6: "checkCustomResponse exampleEnv 0 exampleRecords ''zz.oob.example.'' = []"
    by simp
  from a1 a2 a3 a4 r1 r2 b1 b2 b3 r5 c1 c2 c3 r6 a5 r3 r4 show ?thesis by blast
qed

subsection \<open>The correlation extractor\<close>

text \<open>Both scans keep the last match: a match overwrites the state.\<close>

lemma scanWindows_last:
  "scanWindows isC ws st =
     (if filter (\<lambda>p. isC (ToLower p)) ws = [] then st
      else (ToLower (last (filter (\<lambda>p. isC (ToLower p)) ws)),
            last (filter (\<lambda>p. isC (ToLower p)) ws)))"
  by (induction ws arbitrary: st) (auto simp: Let_def)

lemma scanChunks_last:
  "scanChunks env opts chunks st =
     (let ws = filter (\<lambda>p. isCorrelationID opts (ToLower p))
                 (concat (map (\<lambda>chunk. SlideWithLength env chunk (GetIdLength opts)) chunks))
      in if ws = [] then st else (ToLower (last ws), last ws))"
  by (induction chunks arbitrary: st) (auto simp: Let_def scanWindows_last)

lemma scanSubs_last:
  "scanSubs isC parts i part subs st =
     (if filter isC subs = [] then st
      else (last (filter isC subs),
            if i + 1 \<le> length parts then strings_Join (take (i + 1) parts) ''.'' else part))"
  by (induction subs arbitrary: st) auto

lemma scanParts_fst:
  "fst (scanParts isC parts i rest st) =
     (if filter isC (concat (map splitSubdomainParts rest)) = [] then fst st
      else last (filter isC (concat (map splitSubdomainParts rest))))"
  by (induction rest arbitrary: i st) (auto simp: scanSubs_last)

lemma extractCorrelation_fst:
  assumes "extractCorrelation env opts fd domain req = (u, f)" and "u \<noteq> []"
  shows "matchesInOrder env opts domain req \<noteq> [] \<and> u = last (matchesInOrder env opts domain req)"
proof (cases "ScanEverywhere opts")
  case True
  let ?ws = "filter (\<lambda>p. isCorrelationID opts (ToLower p)) (scanOrderWindows env opts req)"
  have m: "matchesInOrder env opts domain req = map ToLower ?ws"
    using True by (simp add: matchesInOrder_def filter_map comp_def)
  from assms True have fd: "fd \<noteq> []" by (auto simp: extractCorrelation_def split: if_splits)
  with assms True have "?ws \<noteq> [] \<and> u = ToLower (last ?ws)"
    by (auto simp: extractCorrelation_def scanChunks_last scanOrderWindows_def Let_def split: if_splits)
  with m show ?thesis by (simp add: last_map)
next
  case False
  from assms False have fd: "fd \<noteq> []" by (auto simp: extractCorrelation_def split: if_splits)
  let ?parts = "strings_Split domain (CHR ''.'')"
  from assms False fd have "u = fst (scanParts (isCorrelationID opts) ?parts 0 ?parts ([], []))"
    by (simp add: extractCorrelation_def Let_def)
  with assms(2) False show ?thesis
    by (auto simp: scanParts_fst matchesInOrder_def split: if_splits)
qed

lemma scanParts_append:
  "scanParts isC parts i (a @ b) st =
     scanParts isC parts (i + length a) b (scanParts isC parts i a st)"
  by (induction a arbitrary: i st) auto

lemma scanParts_none:
  assumes "\<forall>p \<in> set rest. \<not> list_ex isC (splitSubdomainParts p)"
  shows "scanParts isC parts i rest st = st"
  using assms
  by (induction rest arbitrary: i st) (auto simp: scanSubs_last filter_empty_conv list_ex_iff)

lemma scanParts_deepest:
  assumes "i < length parts" and "list_ex isC (splitSubdomainParts (parts ! i))"
    and "\<forall>p \<in> set (drop (Suc i) parts). \<not> list_ex isC (splitSubdomainParts p)"
  shows "scanParts isC parts 0 parts st =
           (last (filter isC (splitSubdomainParts (parts ! i))),
            strings_Join (take (Suc i) parts) ''.'')"
proof -
  have split: "parts = take i parts @ (parts ! i # drop (Suc i) parts)"
    using assms(1) by (simp add: id_take_nth_drop[symmetric])
  have ne: "filter isC (splitSubdomainParts (parts ! i)) \<noteq> []"
    using assms(2) by (auto simp: filter_empty_conv list_ex_iff)
  have "scanParts isC parts 0 parts st =
        scanParts isC parts 0 (take i parts @ (parts ! i # drop (Suc i) parts)) st"
    using split by simp
  also have "\<dots> = scanParts isC parts i (parts ! i # drop (Suc i) parts)
                     (scanParts isC parts 0 (take i parts) st)"
    using assms(1) by (simp add: scanParts_append)
  also have "\<dots> = scanSubs isC parts i (parts ! i) (splitSubdomainParts (parts ! i))
                     (scanParts isC parts 0 (take i parts) st)"
    using assms(3) by (simp add: scanParts_none)
  also have "\<dots> = (last (filter isC (splitSubdomainParts (parts ! i))),
            strings_Join (take (Suc i) parts) ''.'')"
    using ne assms(1) by (simp add: scanSubs_last)
  finally show ?thesis .
qed

lemma findDomain_found:
  assumes "[] \<notin> set ds" and "\<exists>d \<in> set ds. HasSuffixI domain (Fqdn d)"
  shows "findDomain ds domain \<noteq> []"
  using assms by (induction ds) auto

text \<open>
  C1. Let the query name end with the fqdn of a configured domain (none of the configured
  domains being the empty string). In strict label mode, when label \<open>i\<close> of the name has a
  sub-token that is a correlation id and no later label has one, the extractor returns the
  match of that label (the last one, if the label has several) and \<open>full_id\<close> is the
  dot-join of the labels 0 to \<open>i\<close>. In scan-everywhere mode it returns the last window, in
  the order of iteration over the chunks of the request text and their windows, whose
  lower-cased form is a correlation id: that lower-cased form as \<open>unique_id\<close> and the
  window itself as \<open>full_id\<close>.
\<close>

theorem extractor_deepest_label_last_window:
  assumes "[] \<notin> set (Domains opts)"
    and "\<exists>d \<in> set (Domains opts). HasSuffixI domain (Fqdn d)"
  shows "(\<not> ScanEverywhere opts \<and> i < length (strings_Split domain (CHR ''.'')) \<and>
          list_ex (isCorrelationID opts)
            (splitSubdomainParts (strings_Split domain (CHR ''.'') ! i)) \<and>
          (\<forall>p \<in> set (drop (Suc i) (strings_Split domain (CHR ''.''))).
             \<not> list_ex (isCorrelationID opts) (splitSubdomainParts p)) \<longrightarrow>
          extractCorrelation env opts (findDomain (Domains opts) domain) domain requestMsg =
            (last (filter (isCorrelationID opts)
                     (splitSubdomainParts (strings_Split domain (CHR ''.'') ! i))),
             strings_Join (take (Suc i) (strings_Split domain (CHR ''.''))) ''.'')) \<and>
         (ScanEverywhere opts \<and>
          filter (\<lambda>p. isCorrelationID opts (ToLower p)) (scanOrderWindows env opts requestMsg)
            \<noteq> [] \<longrightarrow>
          extractCorrelation env opts (findDomain (Domains opts) domain) domain requestMsg =
            (ToLower (last (filter (\<lambda>p. isCorrelationID opts (ToLower p))
                              (scanOrderWindows env opts requestMsg))),
             last (filter (\<lambda>p. isCorrelationID opts (ToLower p))
                     (scanOrderWindows env opts requestMsg))))"
proof -
  have fd: "findDomain (Domains opts) domain \<noteq> []"
    using assms by (rule findDomain_found)
  show ?thesis
  proof (intro conjI impI)
    assume a: "\<not> ScanEverywhere opts \<and> i < length (strings_Split domain (CHR ''.'')) \<and>
          list_ex (isCorrelationID opts)
            (splitSubdomainParts (strings_Split domain (CHR ''.'') ! i)) \<and>
          (\<forall>p \<in> set (drop (Suc i) (strings_Split domain (CHR ''.''))).
             \<not> list_ex (isCorrelationID opts) (splitSubdomainParts p))"
    then have "scanParts (isCorrelationID opts) (strings_Split domain (CHR ''.'')) 0
                 (strings_Split domain (CHR ''.'')) ([], []) =
               (last (filter (isCorrelationID opts)
                     (splitSubdomainParts (strings_Split domain (CHR ''.'') ! i))),
                strings_Join (take (Suc i) (strings_Split domain (CHR ''.''))) ''.'')"
      by (intro scanParts_deepest) simp_all
    with a fd show "extractCorrelation env opts (findDomain (Domains opts) domain) domain requestMsg =
            (last (filter (isCorrelationID opts)
                     (splitSubdomainParts (strings_Split domain (CHR ''.'') ! i))),
             strings_Join (take (Suc i) (strings_Split domain (CHR ''.''))) ''.'')"
      by (simp add: extractCorrelation_def Let_def)
  next
    assume a: "ScanEverywhere opts \<and>
          filter (\<lambda>p. isCorrelationID opts (ToLower p)) (scanOrderWindows env opts requestMsg)
            \<noteq> []"
    with fd show "extractCorrelation env opts (findDomain (Domains opts) domain) domain requestMsg =
            (ToLower (last (filter (\<lambda>p. isCorrelationID opts (ToLower p))
                              (scanOrderWindows env opts requestMsg))),
             last (filter (\<lambda>p. isCorrelationID opts (ToLower p))
                     (scanOrderWindows env opts requestMsg)))"
      by (simp add: extractCorrelation_def scanChunks_last scanOrderWindows_def Let_def)
  qed
qed

theorem extractor_deepest_label_last_window_witness:
  "[] \<notin> set (Domains exampleOptions) \<and>
   (\<exists>d \<in> set (Domains exampleOptions).
      HasSuffixI ''foo.a0b9-x.bar_c4ca-zz.oob.example.'' (Fqdn d)) \<and>
   \<not> ScanEverywhere exampleOptions \<and>
   strings_Split ''foo.a0b9-x.bar_c4ca-zz.oob.example.'' (CHR ''.'') =
     [''foo'', ''a0b9-x'', ''bar_c4ca-zz'', ''oob'', ''example'', []] \<and>
   list_ex (isCorrelationID exampleOptions) (splitSubdomainParts ''a0b9-x'') \<and>
   list_ex (isCorrelationID exampleOptions) (splitSubdomainParts ''bar_c4ca-zz'') \<and>
   \<not> list_ex (isCorrelationID exampleOptions) (splitSubdomainParts ''oob'') \<and>
   \<not> list_ex (isCorrelationID exampleOptions) (splitSubdomainParts ''example'') \<and>
   \<not> list_ex (isCorrelationID exampleOptions) (splitSubdomainParts []) \<and>
   extractCorrelation exampleEnv exampleOptions
     (findDomain (Domains exampleOptions) ''foo.a0b9-x.bar_c4ca-zz.oob.example.'')
     ''foo.a0b9-x.bar_c4ca-zz.oob.example.''
     (MsgString exampleEnv (exampleQuery ''foo.a0b9-x.bar_c4ca-zz.oob.example.'' TypeA)) =
     (''c4ca'', ''foo.a0b9-x.bar_c4ca-zz'') \<and>
   [] \<notin> set (Domains exampleScanOptions) \<and>
   (\<exists>d \<in> set (Domains exampleScanOptions). HasSuffixI ''C4CA.foo-A0B9.oob.example.'' (Fqdn d)) \<and>
   ScanEverywhere exampleScanOptions \<and>
   filter (\<lambda>p. isCorrelationID exampleScanOptions (ToLower p))
     (scanOrderWindows exampleEnv exampleScanOptions
        (MsgString exampleEnv (exampleQuery ''C4CA.foo-A0B9.oob.example.'' TypeA))) =
     [''C4CA'', ''A0B9''] \<and>
   extractCorrelation exampleEnv exampleScanOptions
     (findDomain (Domains exampleScanOptions) ''C4CA.foo-A0B9.oob.example.'')
     ''C4CA.foo-A0B9.oob.example.''
     (MsgString exampleEnv (exampleQuery ''C4CA.foo-A0B9.oob.example.'' TypeA)) =
     (''a0b9'', ''A0B9'')"
proof -
  let ?d = "''foo.a0b9-x.bar_c4ca-zz.oob.example.''"
  let ?r = "MsgString exampleEnv (exampleQuery ?d TypeA)"
  let ?e = "''C4CA.foo-A0B9.oob.example.''"
  let ?s = "MsgString exampleEnv (exampleQuery ?e TypeA)"
  have a1: "[] \<notin> set (Domains exampleOptions)" by code_simp
  have a2: "\<exists>d \<in> set (Domains exampleOptions). HasSuffixI ?d (Fqdn d)" by code_simp
  have h1: "\<not> ScanEverywhere exampleOptions" by code_simp
  have h2: "strings_Split ?d (CHR ''.'') =
     [''foo'', ''a0b9-x'', ''bar_c4ca-zz'', ''oob'', ''example'', []]" by code_simp
  have h3: "list_ex (isCorrelationID exampleOptions) (splitSubdomainParts ''a0b9-x'')"
    by code_simp
  have h4: "list_ex (isCorrelationID exampleOptions) (splitSubdomainParts ''bar_c4ca-zz'')"
    by code_simp
  have n1: "\<not> list_ex (isCorrelationID exampleOptions) (splitSubdomainParts ''oob'')"
    by code_simp
  have n2: "\<not> list_ex (isCorrelationID exampleOptions) (splitSubdomainParts ''example'')"
    by code_simp
  have n3: "\<not> list_ex (isCorrelationID exampleOptions) (splitSubdomainParts [])"
    by code_simp
  from n1 n2 n3 have h5: "\<forall>p \<in> set [''oob'', ''example'', []].
      \<not> list_ex (isCorrelationID exampleOptions) (splitSubdomainParts p)" by simp
  have h6: "last (filter (isCorrelationID exampleOptions) (splitSubdomainParts ''bar_c4ca-zz'')) =
     ''c4ca''" by code_simp
  from extractor_deepest_label_last_window [OF a1 a2, of 2 exampleEnv ?r] h1 h2 h3 h4 h5 h6
  have strict: "extractCorrelation exampleEnv exampleOptions
     (findDomain (Domains exampleOptions) ?d) ?d ?r = (''c4ca'', ''foo.a0b9-x.bar_c4ca-zz'')"
    by simp
  have b1: "[] \<notin> set (Domains exampleScanOptions)" by code_simp
  have b2: "\<exists>d \<in> set (Domains exampleScanOptions). HasSuffixI ?e (Fqdn d)" by code_simp
  have k1: "ScanEverywhere exampleScanOptions" by code_simp
  have k2: "filter (\<lambda>p. isCorrelationID exampleScanOptions (ToLower p))
     (scanOrderWindows exampleEnv exampleScanOptions ?s) = [''C4CA'', ''A0B9'']" by code_simp
  have k3: "ToLower ''A0B9'' = ''a0b9''" by code_simp
  from extractor_deepest_label_last_window [OF b1 b2, of 0 exampleEnv ?s] k1 k2 k3
  have scan: "extractCorrelation exampleEnv exampleScanOptions
     (findDomain (Domains exampleScanOptions) ?e) ?e ?s = (''a0b9'', ''A0B9'')"
    by simp
  from a1 a2 h1 h2 h3 h4 n1 n2 n3 strict b1 b2 k1 k2 scan show ?thesis by blast
qed

subsection \<open>One correlation interaction for each message\<close>

lemma rootTLDBranch_storage:
  assumes "rootTLDBranch h env fd d r m w = Inr w'"
  shows "\<exists>calls. storage w' = storage w @ calls \<and> filter isAddInteraction calls = []"
  using assms
  by (auto simp: rootTLDBranch_def Let_def split: sum.splits list.splits option.splits if_splits)

lemma correlationBranch_storage:
  assumes "correlationBranch h env u f r m w = Inr w'"
  shows "storage w' = storage w \<or>
         (\<exists>i blob. UniqueID i = u \<and> Encode env i = Some blob \<and>
            storage w' = storage w @ [AddInteraction (getCorrelationID (options h) u) blob])"
  using assms
  by (auto simp: correlationBranch_def Let_def split: sum.splits list.splits option.splits)

lemma handleInteraction_storage:
  assumes "handleInteraction h env d r m w = Inr w'"
  shows "\<exists>calls. storage w' = storage w @ calls \<and>
           length (filter isAddInteraction calls) \<le> 1 \<and>
           (\<forall>key blob. AddInteraction key blob \<in> set calls \<longrightarrow>
              matchesInOrder env (options h) d (MsgString env r) \<noteq> [] \<and>
              key = getCorrelationID (options h)
                      (last (matchesInOrder env (options h) d (MsgString env r))) \<and>
              (\<exists>i. Encode env i = Some blob \<and>
                   UniqueID i = last (matchesInOrder env (options h) d (MsgString env r))))"
proof -
  let ?fd = "findDomain (Domains (options h)) d"
  let ?root = "if RootTLD (options h) \<and> ?fd \<noteq> [] then rootTLDBranch h env ?fd d r m w else Inr w"
  let ?ms = "matchesInOrder env (options h) d (MsgString env r)"
  from assms obtain w1 where w1: "?root = Inr w1"
    by (auto simp: handleInteraction_def Let_def split: sum.splits)
  then obtain c1 where c1: "storage w1 = storage w @ c1" "filter isAddInteraction c1 = []"
    by (auto split: if_splits dest: rootTLDBranch_storage)
  have c1': "\<And>key blob. AddInteraction key blob \<notin> set c1"
  proof
    fix key blob assume "AddInteraction key blob \<in> set c1"
    then have "AddInteraction key blob \<in> set (filter isAddInteraction c1)" by simp
    with c1(2) show False by simp
  qed
  obtain u f where uf: "extractCorrelation env (options h) ?fd d (MsgString env r) = (u, f)"
    by (cases "extractCorrelation env (options h) ?fd d (MsgString env r)")
  from assms w1 uf
  have br: "(if u \<noteq> [] then correlationBranch h env u f r m w1 else Inr w1) = Inr w'"
    by (simp add: handleInteraction_def Let_def)
  show ?thesis
  proof (cases "storage w' = storage w1")
    case True
    with c1 c1' show ?thesis by (intro exI[of _ c1]) simp
  next
    case False
    with br have u: "u \<noteq> []" and cb: "correlationBranch h env u f r m w1 = Inr w'"
      by (auto split: if_splits)
    from correlationBranch_storage[OF cb] False obtain i blob where
      ib: "UniqueID i = u" "Encode env i = Some blob"
          "storage w' = storage w1 @ [AddInteraction (getCorrelationID (options h) u) blob]"
      by blast
    from extractCorrelation_fst[OF uf u] have ms: "?ms \<noteq> []" "u = last ?ms" by simp_all
    show ?thesis
      using c1 c1' ib ms
      by (intro exI[of _ "c1 @ [AddInteraction (getCorrelationID (options h) u) blob]"]) auto
  qed
qed

text \<open>
  C3, as the specification states it, fails: in \<open>c4ca-a0b9.oob.example.\<close> the sub-tokens
  \<open>c4ca\<close> and \<open>a0b9\<close> both match, and the interaction stored is the one of \<open>a0b9\<close>,
  the last match, not of the first.
\<close>

theorem first_match_counterexample:
  "matchesInOrder exampleEnv (options exampleServer) ''c4ca-a0b9.oob.example.''
     (MsgString exampleEnv (exampleQuery ''c4ca-a0b9.oob.example.'' TypeA)) = [''c4ca'', ''a0b9''] \<and>
   ServeDNS exampleServer exampleEnv (exampleQuery ''c4ca-a0b9.oob.example.'' TypeA) emptyWorld =
     Inr \<lparr>StatsDns = 1,
          storage = [AddInteraction ''a0b9'' ''a0b9,c4ca-a0b9,10.0.0.53''],
          callbacks = [], written = [exampleReplyA ''c4ca-a0b9.oob.example.'']\<rparr>"
  by code_simp

text \<open>
  C3, amended. For every DNS message the handler stores at most one interaction of the
  correlation branch, and when it stores one, several identifiers may have matched but the
  one emitted is the last match in scanning order: the storage key is the correlation id of
  that last match and the blob encodes an interaction whose unique id is that match.
\<close>

theorem at_most_one_correlation_last_match:
  assumes "ServeDNS h env r w = Inr w'" and "Questions r = q0 # qs"
  shows "\<exists>calls. storage w' = storage w @ calls \<and>
           length (filter isAddInteraction calls) \<le> 1 \<and>
           (\<forall>key blob. AddInteraction key blob \<in> set calls \<longrightarrow>
              matchesInOrder env (options h) (QName q0) (MsgString env r) \<noteq> [] \<and>
              key = getCorrelationID (options h)
                      (last (matchesInOrder env (options h) (QName q0) (MsgString env r))) \<and>
              (\<exists>i. Encode env i = Some blob \<and>
                   UniqueID i =
                     last (matchesInOrder env (options h) (QName q0) (MsgString env r))))"
proof -
  let ?w0 = "w\<lparr>StatsDns := StatsDns w + 1\<rparr>"
  let ?loop = "questionLoop h env 0 (Questions r) ((SetReply r)\<lparr>Authoritative := True\<rparr>) False"
  from assms obtain res where res: "?loop = Inr res"
    by (auto simp: ServeDNS_def Let_def split: sum.splits)
  show ?thesis
  proof (cases res)
    case None
    with assms res have "w' = ?w0" by (simp add: ServeDNS_def)
    then show ?thesis by (intro exI[of _ "[]"]) simp
  next
    case (Some mc)
    obtain m' ch where mc: "mc = (m', ch)" by (cases mc)
    show ?thesis
    proof (cases ch)
      case True
      with assms res Some mc have "w' = ?w0\<lparr>written := written ?w0 @ [m']\<rparr>"
        by (simp add: ServeDNS_def)
      then show ?thesis by (intro exI[of _ "[]"]) simp
    next
      case False
      with assms res Some mc obtain w1 where
        hi: "handleInteraction h env (QName q0) r m' ?w0 = Inr w1"
        and w': "w' = w1\<lparr>written := written w1 @ [m']\<rparr>"
        by (auto simp: ServeDNS_def split: sum.splits)
      from handleInteraction_storage[OF hi] w' show ?thesis by simp
    qed
  qed
qed

theorem at_most_one_correlation_last_match_witness:
  "ServeDNS exampleServer exampleEnv (exampleQuery ''c4ca.a0b9.oob.example.'' TypeA) emptyWorld =
     Inr \<lparr>StatsDns = 1,
          storage = [AddInteraction ''a0b9'' ''a0b9,c4ca.a0b9,10.0.0.53''],
          callbacks = [], written = [exampleReplyA ''c4ca.a0b9.oob.example.'']\<rparr> \<and>
   Questions (exampleQuery ''c4ca.a0b9.oob.example.'' TypeA) =
     [\<lparr>QName = ''c4ca.a0b9.oob.example.'', Qtype = TypeA, Qclass = ClassINET\<rparr>] \<and>
   matchesInOrder exampleEnv (options exampleServer) ''c4ca.a0b9.oob.example.''
     (MsgString exampleEnv (exampleQuery ''c4ca.a0b9.oob.example.'' TypeA)) = [''c4ca'', ''a0b9'']"
proof -
  let ?r = "exampleQuery ''c4ca.a0b9.oob.example.'' TypeA"
  have a: "ServeDNS exampleServer exampleEnv ?r emptyWorld =
     Inr \<lparr>StatsDns = 1,
          storage = [AddInteraction ''a0b9'' ''a0b9,c4ca.a0b9,10.0.0.53''],
          callbacks = [], written = [exampleReplyA ''c4ca.a0b9.oob.example.'']\<rparr>"
    by code_simp
  have b: "Questions ?r = [\<lparr>QName = ''c4ca.a0b9.oob.example.'', Qtype = TypeA, Qclass = ClassINET\<rparr>]"
    by (simp add: exampleQuery_def)
  have c: "matchesInOrder exampleEnv (options exampleServer) ''c4ca.a0b9.oob.example.''
     (MsgString exampleEnv ?r) = [''c4ca'', ''a0b9'']"
    by code_simp
  from at_most_one_correlation_last_match [OF a b] a b c
  show ?thesis by simp
qed

subsection \<open>Case folding in strict label mode\<close>

text \<open>
  C2: strict label mode does not lower-case. The sub-token \<open>C4CA\<close> is an identifier once
  lower-cased, yet strict mode finds nothing and no interaction is stored, while
  scan-everywhere mode, which lower-cases each window, finds \<open>c4ca\<close> in the same message;
  and with a predicate that accepts upper-case letters, strict mode emits \<open>C4CA\<close> as it
  is written.
\<close>

theorem strict_mode_no_case_folding:
  "isCorrelationID exampleOptions (ToLower ''C4CA'') \<and>
   extractCorrelation exampleEnv exampleOptions ''oob.example'' ''C4CA.oob.example.''
     (MsgString exampleEnv (exampleQuery ''C4CA.oob.example.'' TypeA)) = ([], []) \<and>
   extractCorrelation exampleEnv (exampleOptions\<lparr>ScanEverywhere := True\<rparr>) ''oob.example''
     ''C4CA.oob.example.''
     (MsgString exampleEnv (exampleQuery ''C4CA.oob.example.'' TypeA)) = (''c4ca'', ''C4CA'') \<and>
   extractCorrelation exampleEnv (exampleOptions\<lparr>isCorrelationID := (\<lambda>s. length s = 4)\<rparr>)
     ''oob.example'' ''C4CA.oob.example.''
     (MsgString exampleEnv (exampleQuery ''C4CA.oob.example.'' TypeA)) = (''C4CA'', ''C4CA'') \<and>
   ServeDNS exampleServer exampleEnv (exampleQuery ''C4CA.oob.example.'' TypeA) emptyWorld =
     Inr \<lparr>StatsDns = 1, storage = [], callbacks = [],
          written = [exampleReplyA ''C4CA.oob.example.'']\<rparr>"
  by code_simp

end
